theory Spec2Isabelle
  imports Main
begin

section \<open>Data model\<close>

text \<open>
  The rows of the five tables the authentication core works on, field for field as the
  schema and the entity classes declare them. A point in time is JavaScript's number of
  milliseconds since the epoch.
\<close>

type_synonym time = int

datatype TenantRole = OWNER | ADMIN | MEMBER

record User =
  user_id :: string
  user_email :: string
  user_password :: string
  user_firstName :: "string option"
  user_lastName :: "string option"
  user_createdAt :: time
  user_updatedAt :: time

record Tenant =
  tenant_id :: string
  tenant_name :: string
  tenant_slug :: string
  tenant_createdAt :: time
  tenant_updatedAt :: time

record TenantUser =
  tu_userId :: string
  tu_tenantId :: string
  tu_role :: TenantRole
  tu_createdAt :: time
  tu_updatedAt :: time

record RefreshToken =
  rt_id :: string
  rt_token :: string
  rt_userId :: string
  rt_expiresAt :: time
  rt_revoked :: bool
  rt_createdAt :: time
  rt_updatedAt :: time

record Invitation =
  inv_id :: string
  inv_email :: string
  inv_token :: string
  inv_role :: TenantRole
  inv_expiresAt :: time
  inv_accepted :: bool
  inv_tenantId :: string
  inv_invitedBy :: string
  inv_createdAt :: time
  inv_updatedAt :: time

text \<open>
  The database: one list of rows per table. The order of a list is the order in which
  the database hands the rows out when a query asks for no ordering; SQL leaves that
  order open, so nothing relates it to the creation times of the rows.
\<close>

record db =
  users :: "User list"
  tenants :: "Tenant list"
  tenantUsers :: "TenantUser list"
  refreshTokens :: "RefreshToken list"
  invitations :: "Invitation list"

record JwtPayload =
  sub :: string
  tenantId :: string

record TokenPair =
  accessToken :: string
  refresh_token :: string

section \<open>Errors\<close>

text \<open>
  Every exception of the source is a value. \<open>Store\<close> wraps what the database client
  throws: a violated unique or foreign-key constraint, an update or delete of a row that
  is not there, and the loss of the connection. \<open>JwtSignError\<close> and
  \<open>JwtVerifyError\<close> are what the JWT service throws.
\<close>

datatype store_error = UniqueConstraint | ForeignKeyConstraint | RecordNotFound | Unavailable

datatype error =
    AuthInvalidCredentials
  | AuthUserHasNoTenants
  | AuthInvalidRefreshToken
  | AuthUserAlreadyExists string
  | AuthPasswordRequired
  | AuthTenantNotFound string
  | InvitationNotFound string
  | InvitationAlreadyAccepted
  | InvitationExpired
  | Store store_error
  | JwtSignError
  | JwtVerifyError

section \<open>What a call gets from outside\<close>

text \<open>
  The third-party libraries and the configuration are parameters: \<open>jwt_sign payload
  secret expiresIn now\<close> and \<open>jwt_verify token secret now\<close> stand for the JWT service
  (\<open>None\<close> is a thrown exception), \<open>sha256_hex\<close> for the hex digest of
  \<open>crypto.createHash('sha256')\<close>, \<open>bcrypt_hash\<close> and \<open>bcrypt_compare\<close> for bcrypt
  (the random salt is folded into the function), \<open>lifetime_ms\<close> for the number of
  milliseconds the JWT library reads from a lifetime such as \<open>30d\<close>.
\<close>

record env =
  jwt_sign :: "JwtPayload \<Rightarrow> string option \<Rightarrow> string option \<Rightarrow> time \<Rightarrow> string option"
  jwt_verify :: "string \<Rightarrow> string option \<Rightarrow> time \<Rightarrow> JwtPayload option"
  sha256_hex :: "string \<Rightarrow> string"
  bcrypt_hash :: "string \<Rightarrow> nat \<Rightarrow> string"
  bcrypt_compare :: "string \<Rightarrow> string \<Rightarrow> bool"
  lifetime_ms :: "string \<Rightarrow> int"
  cfg_jwt_secret :: "string option"
  cfg_jwt_expiresIn :: "string option"
  cfg_jwt_refreshSecret :: "string option"
  cfg_jwt_refreshExpiresIn :: "string option"

text \<open>
  The database statements the modelled code issues. One call of a service method issues
  each kind at most once, so a kind names a statement of the call.
\<close>

datatype statement =
    UserFindUnique | UserCreate | UserDelete
  | TenantFindUnique | TenantCreate | TenantDelete
  | TenantUserFindMany | TenantUserCreate | TenantUserUpsert | TenantUserUpdate | TenantUserDelete
  | TenantUserFindOne | TenantUserSave
  | InvitationFindUnique | InvitationCreate | InvitationUpdate | InvitationDelete
  | RefreshTokenFindUnique | RefreshTokenCreate | RefreshTokenUpdate
  | RefreshTokenUpdateMany | RefreshTokenDeleteMany
  | Commit

text \<open>
  What varies from call to call: the clock (\<open>new Date()\<close> and the database's
  \<open>now()\<close>, read once per call), the statements at which the database is unreachable,
  the identifier the database draws for the row a statement creates, and the six
  characters \<open>Math.random().toString(36).substring(2, 8)\<close> yields.
\<close>

record call =
  now :: time
  outage :: "statement \<Rightarrow> bool"
  uuid :: "statement \<Rightarrow> string"
  random36 :: string

section \<open>The database client\<close>

text \<open>
  Each statement of the database client is a function of the database. A read returns
  what it found; a write returns the row and the database after it, or the error the
  client throws, in which case nothing is written. Every statement first fails when the
  database is unreachable at it. Constraints are those of the schema: primary keys,
  the unique \<open>email\<close>, \<open>slug\<close> and \<open>token\<close> columns, the composite key of a
  membership, and the foreign keys with their cascading deletes.
\<close>

definition reach :: "call \<Rightarrow> statement \<Rightarrow> (error + 'a) \<Rightarrow> error + 'a" where
  "reach c s r = (if outage c s then Inl (Store Unavailable) else r)"

definition user_exists :: "db \<Rightarrow> string \<Rightarrow> bool" where
  "user_exists d uid = (\<exists>u \<in> set (users d). user_id u = uid)"

definition tenant_exists :: "db \<Rightarrow> string \<Rightarrow> bool" where
  "tenant_exists d tid = (\<exists>t \<in> set (tenants d). tenant_id t = tid)"

subsection \<open>user\<close>

definition user_findUnique_email :: "call \<Rightarrow> db \<Rightarrow> string \<Rightarrow> error + User option" where
  "user_findUnique_email c d email =
     reach c UserFindUnique (Inr (find (\<lambda>u. user_email u = email) (users d)))"

definition user_findUnique_id :: "call \<Rightarrow> db \<Rightarrow> string \<Rightarrow> error + User option" where
  "user_findUnique_id c d uid =
     reach c UserFindUnique (Inr (find (\<lambda>u. user_id u = uid) (users d)))"

definition user_create ::
  "call \<Rightarrow> db \<Rightarrow> string \<Rightarrow> string \<Rightarrow> string option \<Rightarrow> string option \<Rightarrow> error + User \<times> db" where
  "user_create c d email password firstName lastName =
     reach c UserCreate
       (let row = \<lparr>user_id = uuid c UserCreate, user_email = email, user_password = password,
                   user_firstName = firstName, user_lastName = lastName,
                   user_createdAt = now c, user_updatedAt = now c\<rparr>
        in if \<exists>u \<in> set (users d). user_id u = user_id row \<or> user_email u = email
           then Inl (Store UniqueConstraint)
           else Inr (row, d\<lparr>users := users d @ [row]\<rparr>))"

definition user_delete :: "call \<Rightarrow> db \<Rightarrow> string \<Rightarrow> error + db" where
  "user_delete c d uid =
     reach c UserDelete
       (if \<not> user_exists d uid then Inl (Store RecordNotFound)
        else Inr (d\<lparr>users := filter (\<lambda>u. user_id u \<noteq> uid) (users d),
                    tenantUsers := filter (\<lambda>m. tu_userId m \<noteq> uid) (tenantUsers d),
                    refreshTokens := filter (\<lambda>r. rt_userId r \<noteq> uid) (refreshTokens d),
                    invitations := filter (\<lambda>i. inv_invitedBy i \<noteq> uid) (invitations d)\<rparr>))"

subsection \<open>tenant\<close>

definition tenant_findUnique_id :: "call \<Rightarrow> db \<Rightarrow> string \<Rightarrow> error + Tenant option" where
  "tenant_findUnique_id c d tid =
     reach c TenantFindUnique (Inr (find (\<lambda>t. tenant_id t = tid) (tenants d)))"

definition tenant_create :: "call \<Rightarrow> db \<Rightarrow> string \<Rightarrow> string \<Rightarrow> error + Tenant \<times> db" where
  "tenant_create c d name slug =
     reach c TenantCreate
       (let row = \<lparr>tenant_id = uuid c TenantCreate, tenant_name = name, tenant_slug = slug,
                   tenant_createdAt = now c, tenant_updatedAt = now c\<rparr>
        in if \<exists>t \<in> set (tenants d). tenant_id t = tenant_id row \<or> tenant_slug t = slug
           then Inl (Store UniqueConstraint)
           else Inr (row, d\<lparr>tenants := tenants d @ [row]\<rparr>))"

definition tenant_delete :: "call \<Rightarrow> db \<Rightarrow> string \<Rightarrow> error + db" where
  "tenant_delete c d tid =
     reach c TenantDelete
       (if \<not> tenant_exists d tid then Inl (Store RecordNotFound)
        else Inr (d\<lparr>tenants := filter (\<lambda>t. tenant_id t \<noteq> tid) (tenants d),
                    tenantUsers := filter (\<lambda>m. tu_tenantId m \<noteq> tid) (tenantUsers d),
                    invitations := filter (\<lambda>i. inv_tenantId i \<noteq> tid) (invitations d)\<rparr>))"

subsection \<open>tenantUser\<close>

definition is_membership :: "string \<Rightarrow> string \<Rightarrow> TenantUser \<Rightarrow> bool" where
  "is_membership uid tid m = (tu_userId m = uid \<and> tu_tenantId m = tid)"

text \<open>\<open>findMany\<close> with a \<open>where\<close> and no \<open>orderBy\<close>: the matching rows, in table order.\<close>

definition tenantUser_findMany_userId :: "call \<Rightarrow> db \<Rightarrow> string \<Rightarrow> error + TenantUser list" where
  "tenantUser_findMany_userId c d uid =
     reach c TenantUserFindMany (Inr (filter (\<lambda>m. tu_userId m = uid) (tenantUsers d)))"

text \<open>The same with \<open>orderBy: { createdAt: 'asc' }\<close>.\<close>

definition tenantUser_findMany_userId_asc :: "call \<Rightarrow> db \<Rightarrow> string \<Rightarrow> error + TenantUser list" where
  "tenantUser_findMany_userId_asc c d uid =
     reach c TenantUserFindMany
       (Inr (sort_key tu_createdAt (filter (\<lambda>m. tu_userId m = uid) (tenantUsers d))))"

definition tenantUser_create ::
  "call \<Rightarrow> db \<Rightarrow> string \<Rightarrow> string \<Rightarrow> TenantRole \<Rightarrow> error + TenantUser \<times> db" where
  "tenantUser_create c d uid tid role =
     reach c TenantUserCreate
       (let row = \<lparr>tu_userId = uid, tu_tenantId = tid, tu_role = role,
                   tu_createdAt = now c, tu_updatedAt = now c\<rparr>
        in if \<exists>m \<in> set (tenantUsers d). is_membership uid tid m
           then Inl (Store UniqueConstraint)
           else if \<not> user_exists d uid \<or> \<not> tenant_exists d tid
           then Inl (Store ForeignKeyConstraint)
           else Inr (row, d\<lparr>tenantUsers := tenantUsers d @ [row]\<rparr>))"

definition tenantUser_upsert ::
  "call \<Rightarrow> db \<Rightarrow> string \<Rightarrow> string \<Rightarrow> TenantRole \<Rightarrow> error + db" where
  "tenantUser_upsert c d uid tid role =
     reach c TenantUserUpsert
       (if \<exists>m \<in> set (tenantUsers d). is_membership uid tid m
        then Inr (d\<lparr>tenantUsers :=
                     map (\<lambda>m. if is_membership uid tid m
                               then m\<lparr>tu_role := role, tu_updatedAt := now c\<rparr> else m)
                       (tenantUsers d)\<rparr>)
        else if \<not> user_exists d uid \<or> \<not> tenant_exists d tid
        then Inl (Store ForeignKeyConstraint)
        else Inr (d\<lparr>tenantUsers := tenantUsers d @
                     [\<lparr>tu_userId = uid, tu_tenantId = tid, tu_role = role,
                       tu_createdAt = now c, tu_updatedAt = now c\<rparr>]\<rparr>))"

definition tenantUser_update ::
  "call \<Rightarrow> db \<Rightarrow> string \<Rightarrow> string \<Rightarrow> TenantRole \<Rightarrow> error + db" where
  "tenantUser_update c d uid tid role =
     reach c TenantUserUpdate
       (if \<not> (\<exists>m \<in> set (tenantUsers d). is_membership uid tid m)
        then Inl (Store RecordNotFound)
        else Inr (d\<lparr>tenantUsers :=
                     map (\<lambda>m. if is_membership uid tid m
                               then m\<lparr>tu_role := role, tu_updatedAt := now c\<rparr> else m)
                       (tenantUsers d)\<rparr>))"

definition tenantUser_delete :: "call \<Rightarrow> db \<Rightarrow> string \<Rightarrow> string \<Rightarrow> error + db" where
  "tenantUser_delete c d uid tid =
     reach c TenantUserDelete
       (if \<not> (\<exists>m \<in> set (tenantUsers d). is_membership uid tid m)
        then Inl (Store RecordNotFound)
        else Inr (d\<lparr>tenantUsers := filter (\<lambda>m. \<not> is_membership uid tid m) (tenantUsers d)\<rparr>))"

subsection \<open>invitation\<close>

definition invitation_findUnique_token :: "call \<Rightarrow> db \<Rightarrow> string \<Rightarrow> error + Invitation option" where
  "invitation_findUnique_token c d token =
     reach c InvitationFindUnique (Inr (find (\<lambda>i. inv_token i = token) (invitations d)))"

definition invitation_create ::
  "call \<Rightarrow> db \<Rightarrow> string \<Rightarrow> string \<Rightarrow> TenantRole \<Rightarrow> time \<Rightarrow> string \<Rightarrow> string
     \<Rightarrow> error + Invitation \<times> db" where
  "invitation_create c d email token role expiresAt tid invitedBy =
     reach c InvitationCreate
       (let row = \<lparr>inv_id = uuid c InvitationCreate, inv_email = email, inv_token = token,
                   inv_role = role, inv_expiresAt = expiresAt, inv_accepted = False,
                   inv_tenantId = tid, inv_invitedBy = invitedBy,
                   inv_createdAt = now c, inv_updatedAt = now c\<rparr>
        in if \<exists>i \<in> set (invitations d). inv_id i = inv_id row \<or> inv_token i = token
           then Inl (Store UniqueConstraint)
           else if \<not> tenant_exists d tid \<or> \<not> user_exists d invitedBy
           then Inl (Store ForeignKeyConstraint)
           else Inr (row, d\<lparr>invitations := invitations d @ [row]\<rparr>))"

text \<open>\<open>invitation.update({ where: { id }, data: { accepted: true } })\<close>\<close>

definition invitation_update_accepted :: "call \<Rightarrow> db \<Rightarrow> string \<Rightarrow> error + db" where
  "invitation_update_accepted c d iid =
     reach c InvitationUpdate
       (if \<not> (\<exists>i \<in> set (invitations d). inv_id i = iid) then Inl (Store RecordNotFound)
        else Inr (d\<lparr>invitations :=
                     map (\<lambda>i. if inv_id i = iid
                               then i\<lparr>inv_accepted := True, inv_updatedAt := now c\<rparr> else i)
                       (invitations d)\<rparr>))"

definition invitation_delete :: "call \<Rightarrow> db \<Rightarrow> string \<Rightarrow> error + db" where
  "invitation_delete c d iid =
     reach c InvitationDelete
       (if \<not> (\<exists>i \<in> set (invitations d). inv_id i = iid) then Inl (Store RecordNotFound)
        else Inr (d\<lparr>invitations := filter (\<lambda>i. inv_id i \<noteq> iid) (invitations d)\<rparr>))"

subsection \<open>refreshToken\<close>

definition refreshToken_create ::
  "call \<Rightarrow> db \<Rightarrow> string \<Rightarrow> string \<Rightarrow> time \<Rightarrow> error + RefreshToken \<times> db" where
  "refreshToken_create c d uid token expiresAt =
     reach c RefreshTokenCreate
       (let row = \<lparr>rt_id = uuid c RefreshTokenCreate, rt_token = token, rt_userId = uid,
                   rt_expiresAt = expiresAt, rt_revoked = False,
                   rt_createdAt = now c, rt_updatedAt = now c\<rparr>
        in if \<exists>r \<in> set (refreshTokens d). rt_id r = rt_id row \<or> rt_token r = token
           then Inl (Store UniqueConstraint)
           else if \<not> user_exists d uid then Inl (Store ForeignKeyConstraint)
           else Inr (row, d\<lparr>refreshTokens := refreshTokens d @ [row]\<rparr>))"

definition refreshToken_findUnique_token ::
  "call \<Rightarrow> db \<Rightarrow> string \<Rightarrow> error + RefreshToken option" where
  "refreshToken_findUnique_token c d token =
     reach c RefreshTokenFindUnique (Inr (find (\<lambda>r. rt_token r = token) (refreshTokens d)))"

text \<open>\<open>refreshToken.update({ where: { token }, data: { revoked: true } })\<close>\<close>

definition refreshToken_update_revoked :: "call \<Rightarrow> db \<Rightarrow> string \<Rightarrow> error + db" where
  "refreshToken_update_revoked c d token =
     reach c RefreshTokenUpdate
       (if \<not> (\<exists>r \<in> set (refreshTokens d). rt_token r = token) then Inl (Store RecordNotFound)
        else Inr (d\<lparr>refreshTokens :=
                     map (\<lambda>r. if rt_token r = token
                               then r\<lparr>rt_revoked := True, rt_updatedAt := now c\<rparr> else r)
                       (refreshTokens d)\<rparr>))"

definition refreshToken_updateMany_revoked :: "call \<Rightarrow> db \<Rightarrow> string \<Rightarrow> error + db" where
  "refreshToken_updateMany_revoked c d uid =
     reach c RefreshTokenUpdateMany
       (Inr (d\<lparr>refreshTokens :=
                 map (\<lambda>r. if rt_userId r = uid
                           then r\<lparr>rt_revoked := True, rt_updatedAt := now c\<rparr> else r)
                   (refreshTokens d)\<rparr>))"

definition refreshToken_deleteMany_expired :: "call \<Rightarrow> db \<Rightarrow> error + nat \<times> db" where
  "refreshToken_deleteMany_expired c d =
     reach c RefreshTokenDeleteMany
       (Inr (length (filter (\<lambda>r. rt_expiresAt r < now c) (refreshTokens d)),
             d\<lparr>refreshTokens := filter (\<lambda>r. \<not> rt_expiresAt r < now c) (refreshTokens d)\<rparr>))"

subsection \<open>Transactions\<close>

text \<open>
  \<open>$transaction\<close>: the statements of the body run on the database; when one of them
  throws, or the commit does not go through, the database is the one before the
  transaction.
\<close>

definition transaction ::
  "call \<Rightarrow> db \<Rightarrow> (db \<Rightarrow> error + 'a \<times> db) \<Rightarrow> (error + 'a) \<times> db" where
  "transaction c d body =
     (case body d of
        Inl e \<Rightarrow> (Inl e, d)
      | Inr (x, d') \<Rightarrow> if outage c Commit then (Inl (Store Unavailable), d) else (Inr x, d'))"

section \<open>Entities\<close>

text \<open>\<open>RefreshTokenEntity.isExpired\<close>, \<open>isValid\<close> and \<open>InvitationEntity.isExpired\<close>.\<close>

definition rt_isExpired :: "call \<Rightarrow> RefreshToken \<Rightarrow> bool" where
  "rt_isExpired c r = (now c > rt_expiresAt r)"

definition rt_isValid :: "call \<Rightarrow> RefreshToken \<Rightarrow> bool" where
  "rt_isValid c r = (\<not> rt_isExpired c r \<and> \<not> rt_revoked r)"

definition inv_isExpired :: "call \<Rightarrow> Invitation \<Rightarrow> bool" where
  "inv_isExpired c i = (now c > inv_expiresAt i)"

section \<open>RefreshTokenRepository\<close>

definition hashToken :: "env \<Rightarrow> string \<Rightarrow> string" where
  "hashToken env token = sha256_hex env token"

definition RefreshTokenRepository_create ::
  "env \<Rightarrow> call \<Rightarrow> db \<Rightarrow> string \<Rightarrow> string \<Rightarrow> time \<Rightarrow> error + RefreshToken \<times> db" where
  "RefreshTokenRepository_create env c d userId token expiresAt =
     (let hashedToken = hashToken env token
      in refreshToken_create c d userId hashedToken expiresAt)"

definition RefreshTokenRepository_findByToken ::
  "env \<Rightarrow> call \<Rightarrow> db \<Rightarrow> string \<Rightarrow> error + RefreshToken option" where
  "RefreshTokenRepository_findByToken env c d token =
     (let hashedToken = hashToken env token
      in refreshToken_findUnique_token c d hashedToken)"

definition RefreshTokenRepository_revoke :: "env \<Rightarrow> call \<Rightarrow> db \<Rightarrow> string \<Rightarrow> error + db" where
  "RefreshTokenRepository_revoke env c d token =
     (let hashedToken = hashToken env token
      in refreshToken_update_revoked c d hashedToken)"

definition RefreshTokenRepository_revokeAllForUser :: "call \<Rightarrow> db \<Rightarrow> string \<Rightarrow> error + db" where
  "RefreshTokenRepository_revokeAllForUser c d userId = refreshToken_updateMany_revoked c d userId"

definition RefreshTokenRepository_deleteExpired :: "call \<Rightarrow> db \<Rightarrow> error + nat \<times> db" where
  "RefreshTokenRepository_deleteExpired c d = refreshToken_deleteMany_expired c d"

section \<open>UserRepository, InvitationRepository, TenantRepository\<close>

text \<open>
  \<open>findById\<close> and \<open>findByEmail\<close> include the user's memberships and map the row to an
  entity without the password; \<open>findByEmailWithPassword\<close> returns the row itself.
\<close>

record UserEntity =
  ue_id :: string
  ue_email :: string
  ue_firstName :: "string option"
  ue_lastName :: "string option"
  ue_createdAt :: time
  ue_updatedAt :: time
  ue_tenantUsers :: "TenantUser list"

definition UserMapper_toEntity :: "db \<Rightarrow> User \<Rightarrow> UserEntity" where
  "UserMapper_toEntity d u =
     \<lparr>ue_id = user_id u, ue_email = user_email u, ue_firstName = user_firstName u,
      ue_lastName = user_lastName u, ue_createdAt = user_createdAt u,
      ue_updatedAt = user_updatedAt u,
      ue_tenantUsers = filter (\<lambda>m. tu_userId m = user_id u) (tenantUsers d)\<rparr>"

definition UserRepository_findById :: "call \<Rightarrow> db \<Rightarrow> string \<Rightarrow> error + UserEntity option" where
  "UserRepository_findById c d uid =
     (case user_findUnique_id c d uid of
        Inl e \<Rightarrow> Inl e
      | Inr user \<Rightarrow> Inr (map_option (UserMapper_toEntity d) user))"

definition UserRepository_findByEmail :: "call \<Rightarrow> db \<Rightarrow> string \<Rightarrow> error + UserEntity option" where
  "UserRepository_findByEmail c d email =
     (case user_findUnique_email c d email of
        Inl e \<Rightarrow> Inl e
      | Inr user \<Rightarrow> Inr (map_option (UserMapper_toEntity d) user))"

definition UserRepository_findByEmailWithPassword ::
  "call \<Rightarrow> db \<Rightarrow> string \<Rightarrow> error + User option" where
  "UserRepository_findByEmailWithPassword c d email = user_findUnique_email c d email"

definition UserRepository_delete :: "call \<Rightarrow> db \<Rightarrow> string \<Rightarrow> error + db" where
  "UserRepository_delete c d uid = user_delete c d uid"

text \<open>
  \<open>getUserTenants\<close>: the user's memberships by ascending creation time, each with its
  tenant. Only the tenant's id and the role are kept here; the id of the included tenant
  is the membership's \<open>tenantId\<close>, by the foreign key.
\<close>

record TenantWithRole =
  twr_id :: string
  twr_role :: TenantRole

definition UserRepository_getUserTenants ::
  "call \<Rightarrow> db \<Rightarrow> string \<Rightarrow> error + TenantWithRole list" where
  "UserRepository_getUserTenants c d userId =
     (case tenantUser_findMany_userId_asc c d userId of
        Inl e \<Rightarrow> Inl e
      | Inr tenantUsers' \<Rightarrow>
          Inr (map (\<lambda>tu. \<lparr>twr_id = tu_tenantId tu, twr_role = tu_role tu\<rparr>) tenantUsers'))"

definition InvitationRepository_findByToken ::
  "call \<Rightarrow> db \<Rightarrow> string \<Rightarrow> error + Invitation option" where
  "InvitationRepository_findByToken c d token = invitation_findUnique_token c d token"

definition InvitationRepository_create ::
  "call \<Rightarrow> db \<Rightarrow> string \<Rightarrow> string \<Rightarrow> TenantRole \<Rightarrow> time \<Rightarrow> string \<Rightarrow> string
     \<Rightarrow> error + Invitation \<times> db" where
  "InvitationRepository_create c d email token role expiresAt tid invitedBy =
     invitation_create c d email token role expiresAt tid invitedBy"

definition InvitationRepository_markAsAccepted :: "call \<Rightarrow> db \<Rightarrow> string \<Rightarrow> error + db" where
  "InvitationRepository_markAsAccepted c d iid = invitation_update_accepted c d iid"

definition InvitationRepository_delete :: "call \<Rightarrow> db \<Rightarrow> string \<Rightarrow> error + db" where
  "InvitationRepository_delete c d iid = invitation_delete c d iid"

definition TenantRepository_delete :: "call \<Rightarrow> db \<Rightarrow> string \<Rightarrow> error + db" where
  "TenantRepository_delete c d tid = tenant_delete c d tid"

definition TenantRepository_addUserToTenant ::
  "call \<Rightarrow> db \<Rightarrow> string \<Rightarrow> string \<Rightarrow> TenantRole \<Rightarrow> error + TenantUser \<times> db" where
  "TenantRepository_addUserToTenant c d userId tid role = tenantUser_create c d userId tid role"

definition TenantRepository_updateUserRole ::
  "call \<Rightarrow> db \<Rightarrow> string \<Rightarrow> string \<Rightarrow> TenantRole \<Rightarrow> error + db" where
  "TenantRepository_updateUserRole c d userId tid role = tenantUser_update c d userId tid role"

definition TenantRepository_removeUserFromTenant ::
  "call \<Rightarrow> db \<Rightarrow> string \<Rightarrow> string \<Rightarrow> error + db" where
  "TenantRepository_removeUserFromTenant c d userId tid = tenantUser_delete c d userId tid"

section \<open>AuthService\<close>

text \<open>
  The sources hold the service twice, once written against the Prisma client and once
  against TypeORM. \<open>register\<close>, \<open>refreshToken\<close>, \<open>logout\<close> and \<open>generateTokens\<close>
  issue the same statements in both; they are modelled once, with the statements of the
  Prisma client. \<open>login\<close> differs in how it reads the memberships, and both ways are
  modelled. \<open>acceptInvitation\<close> differs in what its transaction covers, and both
  methods are modelled: \<open>acceptInvitation\<close> is the one written against the Prisma client,
  \<open>acceptInvitation_typeorm\<close> the one written against TypeORM.
\<close>

record RegisterDto =
  reg_email :: string
  reg_password :: string
  reg_firstName :: "string option"
  reg_lastName :: "string option"
  reg_tenantId :: "string option"

record LoginDto =
  login_email :: string
  login_password :: string

record AcceptInvitationDto =
  acc_token :: string
  acc_password :: "string option"

record UserProfile =
  up_id :: string
  up_email :: string
  up_firstName :: "string option"
  up_lastName :: "string option"
  up_createdAt :: time
  up_updatedAt :: time

record AuthResult =
  res_user :: UserProfile
  res_tokens :: TokenPair

definition excludePassword :: "User \<Rightarrow> UserProfile" where
  "excludePassword u =
     \<lparr>up_id = user_id u, up_email = user_email u, up_firstName = user_firstName u,
      up_lastName = user_lastName u, up_createdAt = user_createdAt u,
      up_updatedAt = user_updatedAt u\<rparr>"

text \<open>
  JavaScript's truth of an optional string (absent and empty are false) and \<open>a || b\<close>.
\<close>

definition truthy :: "string option \<Rightarrow> bool" where
  "truthy a = (case a of None \<Rightarrow> False | Some s \<Rightarrow> s \<noteq> [])"

definition or_else :: "string option \<Rightarrow> string \<Rightarrow> string" where
  "or_else a b = (case a of None \<Rightarrow> b | Some s \<Rightarrow> if s = [] then b else s)"

definition toLowerCase_char :: "char \<Rightarrow> char" where
  "toLowerCase_char ch =
     (case map_of (zip ''ABCDEFGHIJKLMNOPQRSTUVWXYZ'' ''abcdefghijklmnopqrstuvwxyz'') ch of
        Some l \<Rightarrow> l
      | None \<Rightarrow> ch)"

definition slug_char :: "char \<Rightarrow> char" where
  "slug_char ch =
     (if ch \<in> set ''abcdefghijklmnopqrstuvwxyz0123456789'' then ch else CHR ''-'')"

definition generateSlug :: "call \<Rightarrow> string \<Rightarrow> string" where
  "generateSlug c email =
     (let base = map slug_char (map toLowerCase_char (takeWhile (\<lambda>ch. ch \<noteq> CHR ''@'') email));
          random = random36 c
      in base @ ''-'' @ random)"

text \<open>
  \<open>expiresAt.setDate(expiresAt.getDate() + 30)\<close>: thirty calendar days later, which is
  thirty times 24 hours on a server whose clock has no daylight-saving shift.
\<close>

definition thirty_days :: int where
  "thirty_days = 30 * 24 * 60 * 60 * 1000"

definition generateTokens ::
  "env \<Rightarrow> call \<Rightarrow> db \<Rightarrow> string \<Rightarrow> string \<Rightarrow> (error + TokenPair) \<times> db" where
  "generateTokens env c d userId tid =
     (let payload = \<lparr>sub = userId, tenantId = tid\<rparr>;
          refreshExpiresIn = or_else (cfg_jwt_refreshExpiresIn env) ''30d''
      in case jwt_sign env payload (cfg_jwt_secret env) (cfg_jwt_expiresIn env) (now c) of
           None \<Rightarrow> (Inl JwtSignError, d)
         | Some access \<Rightarrow>
             (case jwt_sign env payload (cfg_jwt_refreshSecret env) (Some refreshExpiresIn) (now c) of
                None \<Rightarrow> (Inl JwtSignError, d)
              | Some refresh \<Rightarrow>
                  (let expiresAt = now c + thirty_days
                   in case RefreshTokenRepository_create env c d userId refresh expiresAt of
                        Inl e \<Rightarrow> (Inl e, d)
                      | Inr (_, d') \<Rightarrow>
                          (Inr \<lparr>accessToken = access, refresh_token = refresh\<rparr>, d'))))"

subsection \<open>register\<close>

text \<open>
  The body of the transaction of \<open>register\<close>: create the user; then join the given
  tenant as MEMBER, or create a workspace and join it as OWNER. It returns the new user
  and the active tenant.
\<close>

definition register_workspace ::
  "call \<Rightarrow> RegisterDto \<Rightarrow> User \<Rightarrow> db \<Rightarrow> error + (User \<times> string) \<times> db" where
  "register_workspace c dto newUser d =
     (let slug = generateSlug c (reg_email dto)
      in case tenant_create c d (or_else (reg_firstName dto) ''User'' @ [CHR 0x27] @ ''s Workspace'') slug of
           Inl e \<Rightarrow> Inl e
         | Inr (tenant, d1) \<Rightarrow>
             (case tenantUser_create c d1 (user_id newUser) (tenant_id tenant) OWNER of
                Inl e \<Rightarrow> Inl e
              | Inr (_, d2) \<Rightarrow> Inr ((newUser, tenant_id tenant), d2)))"

definition register_join ::
  "call \<Rightarrow> string \<Rightarrow> User \<Rightarrow> db \<Rightarrow> error + (User \<times> string) \<times> db" where
  "register_join c tid newUser d =
     (case tenant_findUnique_id c d tid of
        Inl e \<Rightarrow> Inl e
      | Inr None \<Rightarrow> Inl (AuthTenantNotFound tid)
      | Inr (Some tenant) \<Rightarrow>
          (case tenantUser_create c d (user_id newUser) tid MEMBER of
             Inl e \<Rightarrow> Inl e
           | Inr (_, d1) \<Rightarrow> Inr ((newUser, tid), d1)))"

definition register_tx ::
  "call \<Rightarrow> RegisterDto \<Rightarrow> string \<Rightarrow> db \<Rightarrow> error + (User \<times> string) \<times> db" where
  "register_tx c dto hashedPassword d =
     (case user_create c d (reg_email dto) hashedPassword (reg_firstName dto) (reg_lastName dto) of
        Inl e \<Rightarrow> Inl e
      | Inr (newUser, d1) \<Rightarrow>
          (case reg_tenantId dto of
             None \<Rightarrow> register_workspace c dto newUser d1
           | Some tid \<Rightarrow>
               if tid \<noteq> [] then register_join c tid newUser d1
               else register_workspace c dto newUser d1))"

definition register :: "env \<Rightarrow> call \<Rightarrow> db \<Rightarrow> RegisterDto \<Rightarrow> (error + AuthResult) \<times> db" where
  "register env c d dto =
     (case UserRepository_findByEmail c d (reg_email dto) of
        Inl e \<Rightarrow> (Inl e, d)
      | Inr (Some existingUser) \<Rightarrow> (Inl (AuthUserAlreadyExists (reg_email dto)), d)
      | Inr None \<Rightarrow>
          (let hashedPassword = bcrypt_hash env (reg_password dto) 12
           in case transaction c d (register_tx c dto hashedPassword) of
                (Inl e, d1) \<Rightarrow> (Inl e, d1)
              | (Inr (user, activeTenantId), d1) \<Rightarrow>
                  (case generateTokens env c d1 (user_id user) activeTenantId of
                     (Inl e, d2) \<Rightarrow> (Inl e, d2)
                   | (Inr tokens, d2) \<Rightarrow>
                       (Inr \<lparr>res_user = excludePassword user, res_tokens = tokens\<rparr>, d2))))"

subsection \<open>login\<close>

text \<open>
  \<open>login\<close> is the method written against the Prisma client: it reads the memberships
  with \<open>tenantUser.findMany({ where: { userId } })\<close> and takes \<open>tenantUsers[0].tenantId\<close>.
  \<open>login_getUserTenants\<close> is the method written against TypeORM: it asks
  \<open>UserRepository.getUserTenants\<close> and takes \<open>tenantUsers[0].id\<close>.
\<close>

definition login :: "env \<Rightarrow> call \<Rightarrow> db \<Rightarrow> LoginDto \<Rightarrow> (error + TokenPair) \<times> db" where
  "login env c d dto =
     (case UserRepository_findByEmailWithPassword c d (login_email dto) of
        Inl e \<Rightarrow> (Inl e, d)
      | Inr None \<Rightarrow> (Inl AuthInvalidCredentials, d)
      | Inr (Some user) \<Rightarrow>
          if \<not> bcrypt_compare env (login_password dto) (user_password user)
          then (Inl AuthInvalidCredentials, d)
          else (case tenantUser_findMany_userId c d (user_id user) of
                  Inl e \<Rightarrow> (Inl e, d)
                | Inr [] \<Rightarrow> (Inl AuthUserHasNoTenants, d)
                | Inr (first # _) \<Rightarrow> generateTokens env c d (user_id user) (tu_tenantId first)))"

definition login_getUserTenants ::
  "env \<Rightarrow> call \<Rightarrow> db \<Rightarrow> LoginDto \<Rightarrow> (error + TokenPair) \<times> db" where
  "login_getUserTenants env c d dto =
     (case UserRepository_findByEmailWithPassword c d (login_email dto) of
        Inl e \<Rightarrow> (Inl e, d)
      | Inr None \<Rightarrow> (Inl AuthInvalidCredentials, d)
      | Inr (Some user) \<Rightarrow>
          if \<not> bcrypt_compare env (login_password dto) (user_password user)
          then (Inl AuthInvalidCredentials, d)
          else (case UserRepository_getUserTenants c d (user_id user) of
                  Inl e \<Rightarrow> (Inl e, d)
                | Inr [] \<Rightarrow> (Inl AuthUserHasNoTenants, d)
                | Inr (first # _) \<Rightarrow> generateTokens env c d (user_id user) (twr_id first)))"

subsection \<open>refreshToken and logout\<close>

text \<open>
  The whole body of \<open>refreshToken\<close> is inside \<open>try\<close>, and the handler throws
  \<open>AuthInvalidRefreshToken\<close> whatever was caught.
\<close>

definition refreshToken_body :: "env \<Rightarrow> call \<Rightarrow> db \<Rightarrow> string \<Rightarrow> (error + TokenPair) \<times> db" where
  "refreshToken_body env c d token =
     (case jwt_verify env token (cfg_jwt_refreshSecret env) (now c) of
        None \<Rightarrow> (Inl JwtVerifyError, d)
      | Some payload \<Rightarrow>
          (case RefreshTokenRepository_findByToken env c d token of
             Inl e \<Rightarrow> (Inl e, d)
           | Inr None \<Rightarrow> (Inl AuthInvalidRefreshToken, d)
           | Inr (Some storedToken) \<Rightarrow>
               if \<not> rt_isValid c storedToken then (Inl AuthInvalidRefreshToken, d)
               else (case UserRepository_findById c d (sub payload) of
                       Inl e \<Rightarrow> (Inl e, d)
                     | Inr None \<Rightarrow> (Inl AuthInvalidRefreshToken, d)
                     | Inr (Some user) \<Rightarrow> generateTokens env c d (ue_id user) (tenantId payload))))"

definition refreshToken :: "env \<Rightarrow> call \<Rightarrow> db \<Rightarrow> string \<Rightarrow> (error + TokenPair) \<times> db" where
  "refreshToken env c d token =
     (case refreshToken_body env c d token of
        (Inl error, d') \<Rightarrow> (Inl AuthInvalidRefreshToken, d')
      | (Inr tokens, d') \<Rightarrow> (Inr tokens, d'))"

definition logout :: "env \<Rightarrow> call \<Rightarrow> db \<Rightarrow> string \<Rightarrow> (error + string) \<times> db" where
  "logout env c d token =
     (case RefreshTokenRepository_revoke env c d token of
        Inr d' \<Rightarrow> (Inr ''Logged out successfully'', d')
      | Inl error \<Rightarrow> (Inr ''Logged out successfully'', d))"

subsection \<open>acceptInvitation\<close>

text \<open>
  \<open>acceptInvitation_tx\<close> is the array handed to \<open>$transaction\<close>: the membership
  upsert, then the update of the invitation. \<open>acceptInvitation_user\<close> is the step before
  it: the user found by the invitation's email, or a new user created with the given
  password.
\<close>

definition acceptInvitation_tx :: "call \<Rightarrow> User \<Rightarrow> Invitation \<Rightarrow> db \<Rightarrow> error + unit \<times> db" where
  "acceptInvitation_tx c user invitation d =
     (case tenantUser_upsert c d (user_id user) (inv_tenantId invitation) (inv_role invitation) of
        Inl e \<Rightarrow> Inl e
      | Inr d1 \<Rightarrow>
          (case invitation_update_accepted c d1 (inv_id invitation) of
             Inl e \<Rightarrow> Inl e
           | Inr d2 \<Rightarrow> Inr ((), d2)))"

definition acceptInvitation_user ::
  "env \<Rightarrow> call \<Rightarrow> db \<Rightarrow> AcceptInvitationDto \<Rightarrow> Invitation \<Rightarrow> User option \<Rightarrow> error + User \<times> db" where
  "acceptInvitation_user env c d dto invitation found =
     (case found of
        Some user \<Rightarrow> Inr (user, d)
      | None \<Rightarrow>
          if \<not> truthy (acc_password dto) then Inl AuthPasswordRequired
          else (let hashedPassword = bcrypt_hash env (or_else (acc_password dto) []) 12
                in user_create c d (inv_email invitation) hashedPassword None None))"

definition acceptInvitation ::
  "env \<Rightarrow> call \<Rightarrow> db \<Rightarrow> AcceptInvitationDto \<Rightarrow> (error + AuthResult) \<times> db" where
  "acceptInvitation env c d dto =
     (case InvitationRepository_findByToken c d (acc_token dto) of
        Inl e \<Rightarrow> (Inl e, d)
      | Inr None \<Rightarrow> (Inl (InvitationNotFound (acc_token dto)), d)
      | Inr (Some invitation) \<Rightarrow>
          if inv_accepted invitation then (Inl InvitationAlreadyAccepted, d)
          else if inv_isExpired c invitation then (Inl InvitationExpired, d)
          else (case UserRepository_findByEmailWithPassword c d (inv_email invitation) of
                  Inl e \<Rightarrow> (Inl e, d)
                | Inr found \<Rightarrow>
                    (case acceptInvitation_user env c d dto invitation found of
                       Inl e \<Rightarrow> (Inl e, d)
                     | Inr (user, d1) \<Rightarrow>
                         (case transaction c d1 (acceptInvitation_tx c user invitation) of
                            (Inl e, d2) \<Rightarrow> (Inl e, d2)
                          | (Inr _, d2) \<Rightarrow>
                              (case generateTokens env c d2 (user_id user) (inv_tenantId invitation) of
                                 (Inl e, d3) \<Rightarrow> (Inl e, d3)
                               | (Inr tokens, d3) \<Rightarrow>
                                   (Inr \<lparr>res_user = excludePassword user, res_tokens = tokens\<rparr>,
                                    d3))))))"

text \<open>
  The method written against TypeORM. The user is saved through
  \<open>dataSource.getRepository(User)\<close> before the transaction, as above. In the callback of
  \<open>dataSource.transaction\<close> the membership is looked up and saved through \<open>manager\<close>,
  so these two statements belong to the transaction; a new membership gets its creation
  time from the database. The flag is written by
  \<open>this.invitationRepository.markAsAccepted\<close>, which goes through the repository's own
  client and not through \<open>manager\<close>: that write is committed by itself, on the database
  as it stands outside the transaction. When the callback throws or the commit does not
  go through, the statements of \<open>manager\<close> are undone and only they.
\<close>

definition tenantUser_findOne :: "call \<Rightarrow> db \<Rightarrow> string \<Rightarrow> string \<Rightarrow> error + TenantUser option" where
  "tenantUser_findOne c d uid tid =
     reach c TenantUserFindOne (Inr (find (is_membership uid tid) (tenantUsers d)))"

definition tenantUser_save :: "call \<Rightarrow> db \<Rightarrow> TenantUser \<Rightarrow> error + db" where
  "tenantUser_save c d row =
     reach c TenantUserSave
       (if \<exists>m \<in> set (tenantUsers d). is_membership (tu_userId row) (tu_tenantId row) m
        then Inr (d\<lparr>tenantUsers :=
                     map (\<lambda>m. if is_membership (tu_userId row) (tu_tenantId row) m
                               then row\<lparr>tu_updatedAt := now c\<rparr> else m)
                       (tenantUsers d)\<rparr>)
        else if \<not> user_exists d (tu_userId row) \<or> \<not> tenant_exists d (tu_tenantId row)
        then Inl (Store ForeignKeyConstraint)
        else Inr (d\<lparr>tenantUsers := tenantUsers d @ [row]\<rparr>))"

definition acceptInvitation_typeorm_manager ::
  "call \<Rightarrow> User \<Rightarrow> Invitation \<Rightarrow> db \<Rightarrow> error + db" where
  "acceptInvitation_typeorm_manager c user invitation d =
     (case tenantUser_findOne c d (user_id user) (inv_tenantId invitation) of
        Inl e \<Rightarrow> Inl e
      | Inr (Some existingTenantUser) \<Rightarrow>
          tenantUser_save c d (existingTenantUser\<lparr>tu_role := inv_role invitation\<rparr>)
      | Inr None \<Rightarrow>
          tenantUser_save c d
            \<lparr>tu_userId = user_id user, tu_tenantId = inv_tenantId invitation,
             tu_role = inv_role invitation, tu_createdAt = now c, tu_updatedAt = now c\<rparr>)"

definition acceptInvitation_typeorm_transaction ::
  "call \<Rightarrow> User \<Rightarrow> Invitation \<Rightarrow> db \<Rightarrow> (error + unit) \<times> db" where
  "acceptInvitation_typeorm_transaction c user invitation d =
     (case acceptInvitation_typeorm_manager c user invitation d of
        Inl e \<Rightarrow> (Inl e, d)
      | Inr managed \<Rightarrow>
          (case InvitationRepository_markAsAccepted c d (inv_id invitation) of
             Inl e \<Rightarrow> (Inl e, d)
           | Inr marked \<Rightarrow>
               if outage c Commit then (Inl (Store Unavailable), marked)
               else (Inr (), marked\<lparr>tenantUsers := tenantUsers managed\<rparr>)))"

definition acceptInvitation_typeorm ::
  "env \<Rightarrow> call \<Rightarrow> db \<Rightarrow> AcceptInvitationDto \<Rightarrow> (error + AuthResult) \<times> db" where
  "acceptInvitation_typeorm env c d dto =
     (case InvitationRepository_findByToken c d (acc_token dto) of
        Inl e \<Rightarrow> (Inl e, d)
      | Inr None \<Rightarrow> (Inl (InvitationNotFound (acc_token dto)), d)
      | Inr (Some invitation) \<Rightarrow>
          if inv_accepted invitation then (Inl InvitationAlreadyAccepted, d)
          else if inv_isExpired c invitation then (Inl InvitationExpired, d)
          else (case UserRepository_findByEmailWithPassword c d (inv_email invitation) of
                  Inl e \<Rightarrow> (Inl e, d)
                | Inr found \<Rightarrow>
                    (case acceptInvitation_user env c d dto invitation found of
                       Inl e \<Rightarrow> (Inl e, d)
                     | Inr (user, d1) \<Rightarrow>
                         (case acceptInvitation_typeorm_transaction c user invitation d1 of
                            (Inl e, d2) \<Rightarrow> (Inl e, d2)
                          | (Inr _, d2) \<Rightarrow>
                              (case generateTokens env c d2 (user_id user) (inv_tenantId invitation) of
                                 (Inl e, d3) \<Rightarrow> (Inl e, d3)
                               | (Inr tokens, d3) \<Rightarrow>
                                   (Inr \<lparr>res_user = excludePassword user, res_tokens = tokens\<rparr>,
                                    d3))))))"

section \<open>A concrete deployment\<close>

text \<open>
  Stand-ins for the libraries, to run the model on concrete inputs: a token is the key,
  the subject, the tenant and the time of issue, joined by dots, and verifies under the
  key it was made with; the digest replaces the dots and puts a marker in front; a
  lifetime is a number of days, written like \<open>30d\<close>.
\<close>

fun split_on :: "char \<Rightarrow> string \<Rightarrow> string list" where
  "split_on sep [] = [[]]"
| "split_on sep (x # xs) =
     (if x = sep then [] # split_on sep xs
      else (case split_on sep xs of [] \<Rightarrow> [[x]] | w # ws \<Rightarrow> (x # w) # ws))"

fun decimal :: "nat \<Rightarrow> string" where
  "decimal n =
     (if n < 10 then [''0123456789'' ! n]
      else decimal (n div 10) @ [''0123456789'' ! (n mod 10)])"

definition number_of :: "string \<Rightarrow> nat" where
  "number_of s =
     foldl (\<lambda>a ch. 10 * a + length (takeWhile (\<lambda>dg. dg \<noteq> ch) ''0123456789'')) 0 s"

definition demo_sign :: "JwtPayload \<Rightarrow> string option \<Rightarrow> string option \<Rightarrow> time \<Rightarrow> string option" where
  "demo_sign p key expiresIn t =
     (case key of
        None \<Rightarrow> None
      | Some k \<Rightarrow> Some (k @ ''.'' @ sub p @ ''.'' @ tenantId p @ ''.'' @ decimal (nat t)))"

definition demo_verify :: "string \<Rightarrow> string option \<Rightarrow> time \<Rightarrow> JwtPayload option" where
  "demo_verify token key t =
     (case split_on (CHR ''.'') token of
        [k, s, tn, issued] \<Rightarrow> if key = Some k then Some \<lparr>sub = s, tenantId = tn\<rparr> else None
      | _ \<Rightarrow> None)"

definition demo_sha256 :: "string \<Rightarrow> string" where
  "demo_sha256 s = ''5e'' @ map (\<lambda>ch. if ch = CHR ''.'' then CHR ''0'' else ch) s"

definition demo_lifetime :: "string \<Rightarrow> int" where
  "demo_lifetime s =
     (if s \<noteq> [] \<and> last s = CHR ''d'' then int (number_of (butlast s)) * (24 * 60 * 60 * 1000) else 0)"

definition demo_env :: env where
  "demo_env =
     \<lparr>jwt_sign = demo_sign, jwt_verify = demo_verify, sha256_hex = demo_sha256,
      bcrypt_hash = (\<lambda>p rounds. ''$2b$'' @ p),
      bcrypt_compare = (\<lambda>p h. h = ''$2b$'' @ p),
      lifetime_ms = demo_lifetime,
      cfg_jwt_secret = Some ''as'', cfg_jwt_expiresIn = Some ''1d'',
      cfg_jwt_refreshSecret = Some ''rs'', cfg_jwt_refreshExpiresIn = None\<rparr>"

definition demo_call :: call where
  "demo_call = \<lparr>now = 5000, outage = (\<lambda>s. False), uuid = (\<lambda>s. ''id5''), random36 = ''k3x9q1''\<rparr>"

text \<open>
  A database with one tenant \<open>t1\<close>, two users, \<open>u1\<close> a member of \<open>t1\<close>, a refresh
  token of \<open>u1\<close> for \<open>t1\<close> issued at time 1000, and one open invitation of a third
  address into \<open>t1\<close>.
\<close>

definition alice :: User where
  "alice = \<lparr>user_id = ''u1'', user_email = ''a@x.com'', user_password = ''$2b$Aa1!aaaa'',
            user_firstName = Some ''Al'', user_lastName = None,
            user_createdAt = 100, user_updatedAt = 100\<rparr>"

definition bob :: User where
  "bob = \<lparr>user_id = ''u2'', user_email = ''b@x.com'', user_password = ''$2b$Bb2!bbbb'',
          user_firstName = None, user_lastName = None,
          user_createdAt = 200, user_updatedAt = 200\<rparr>"

definition acme :: Tenant where
  "acme = \<lparr>tenant_id = ''t1'', tenant_name = ''Acme'', tenant_slug = ''acme'',
           tenant_createdAt = 100, tenant_updatedAt = 100\<rparr>"

definition alice_in_acme :: TenantUser where
  "alice_in_acme = \<lparr>tu_userId = ''u1'', tu_tenantId = ''t1'', tu_role = OWNER,
                    tu_createdAt = 100, tu_updatedAt = 100\<rparr>"

definition alice_token :: string where
  "alice_token = ''rs.u1.t1.1000''"

definition alice_stored :: RefreshToken where
  "alice_stored = \<lparr>rt_id = ''r1'', rt_token = ''5ers0u10t101000'', rt_userId = ''u1'',
                   rt_expiresAt = 1000 + thirty_days, rt_revoked = False,
                   rt_createdAt = 1000, rt_updatedAt = 1000\<rparr>"

definition carol_invited :: Invitation where
  "carol_invited = \<lparr>inv_id = ''i1'', inv_email = ''c@x.com'', inv_token = ''tok-c'',
                    inv_role = MEMBER, inv_expiresAt = 90000, inv_accepted = False,
                    inv_tenantId = ''t1'', inv_invitedBy = ''u1'',
                    inv_createdAt = 3600, inv_updatedAt = 3600\<rparr>"

definition demo_db :: db where
  "demo_db = \<lparr>users = [alice, bob], tenants = [acme], tenantUsers = [alice_in_acme],
              refreshTokens = [alice_stored], invitations = [carol_invited]\<rparr>"

section \<open>Notions the properties are stated with\<close>

text \<open>The row \<open>generateTokens\<close> stores for user \<open>u\<close> and the refresh token \<open>refresh\<close>.\<close>

definition issued_row :: "env \<Rightarrow> call \<Rightarrow> string \<Rightarrow> string \<Rightarrow> RefreshToken" where
  "issued_row env c u refresh =
     \<lparr>rt_id = uuid c RefreshTokenCreate, rt_token = hashToken env refresh, rt_userId = u,
      rt_expiresAt = now c + thirty_days, rt_revoked = False,
      rt_createdAt = now c, rt_updatedAt = now c\<rparr>"

text \<open>
  The conditions under which a refresh must be turned down: the token does not verify
  (bad signature, malformed payload, expired), its hash is not in the store, the stored
  record is expired or revoked, or the user the payload names is gone.
\<close>

definition refresh_rejected :: "env \<Rightarrow> call \<Rightarrow> db \<Rightarrow> string \<Rightarrow> bool" where
  "refresh_rejected env c d token =
     ((case find (\<lambda>r. rt_token r = sha256_hex env token) (refreshTokens d) of
         None \<Rightarrow> True
       | Some stored \<Rightarrow> now c > rt_expiresAt stored \<or> rt_revoked stored)
      \<or> (case jwt_verify env token (cfg_jwt_refreshSecret env) (now c) of
            None \<Rightarrow> True
          | Some payload \<Rightarrow> find (\<lambda>u. user_id u = sub payload) (users d) = None))"

text \<open>
  The stored expiry follows the configured lifetime, as a predicate of one issuance: the
  row stored for the new refresh token expires when the lifetime the token was signed
  with has passed.
\<close>

definition stored_expiry_matches_lifetime ::
  "env \<Rightarrow> call \<Rightarrow> db \<Rightarrow> string \<Rightarrow> string \<Rightarrow> bool" where
  "stored_expiry_matches_lifetime env c d u t =
     (case generateTokens env c d u t of
        (Inl e, d') \<Rightarrow> True
      | (Inr pair, d') \<Rightarrow>
          (case find (\<lambda>r. rt_token r = hashToken env (refresh_token pair)) (refreshTokens d') of
             None \<Rightarrow> False
           | Some row \<Rightarrow>
               rt_expiresAt row =
                 now c + lifetime_ms env (or_else (cfg_jwt_refreshExpiresIn env) ''30d'')))"

text \<open>The deployment with the refresh lifetime configured to seven days.\<close>

definition weekly_env :: env where
  "weekly_env = demo_env\<lparr>cfg_jwt_refreshExpiresIn := Some ''7d''\<rparr>"

text \<open>
  A membership is an earliest one of a user when no membership of that user was created
  before it.
\<close>

definition earliest_membership :: "db \<Rightarrow> string \<Rightarrow> TenantUser \<Rightarrow> bool" where
  "earliest_membership d uid m =
     (m \<in> set (tenantUsers d) \<and> tu_userId m = uid \<and>
      (\<forall>m' \<in> set (tenantUsers d). tu_userId m' = uid \<longrightarrow> tu_createdAt m \<le> tu_createdAt m'))"

text \<open>
  The demo database after \<open>u1\<close> has also joined a second tenant \<open>t2\<close>, at time 300; the
  table hands the later membership out first.
\<close>

definition globex :: Tenant where
  "globex = \<lparr>tenant_id = ''t2'', tenant_name = ''Globex'', tenant_slug = ''globex'',
             tenant_createdAt = 300, tenant_updatedAt = 300\<rparr>"

definition alice_in_globex :: TenantUser where
  "alice_in_globex = \<lparr>tu_userId = ''u1'', tu_tenantId = ''t2'', tu_role = MEMBER,
                      tu_createdAt = 300, tu_updatedAt = 300\<rparr>"

definition two_tenants_db :: db where
  "two_tenants_db = demo_db\<lparr>tenants := [acme, globex],
                            tenantUsers := [alice_in_globex, alice_in_acme]\<rparr>"

definition alice_login :: LoginDto where
  "alice_login = \<lparr>login_email = ''a@x.com'', login_password = ''Aa1!aaaa''\<rparr>"

text \<open>The rows \<open>register\<close> and \<open>acceptInvitation\<close> create.\<close>

definition new_user :: "call \<Rightarrow> string \<Rightarrow> string \<Rightarrow> string option \<Rightarrow> string option \<Rightarrow> User" where
  "new_user c email password firstName lastName =
     \<lparr>user_id = uuid c UserCreate, user_email = email, user_password = password,
      user_firstName = firstName, user_lastName = lastName,
      user_createdAt = now c, user_updatedAt = now c\<rparr>"

definition new_membership :: "call \<Rightarrow> string \<Rightarrow> string \<Rightarrow> TenantRole \<Rightarrow> TenantUser" where
  "new_membership c uid tid role =
     \<lparr>tu_userId = uid, tu_tenantId = tid, tu_role = role,
      tu_createdAt = now c, tu_updatedAt = now c\<rparr>"

definition new_tenant :: "call \<Rightarrow> RegisterDto \<Rightarrow> Tenant" where
  "new_tenant c dto =
     \<lparr>tenant_id = uuid c TenantCreate,
      tenant_name = or_else (reg_firstName dto) ''User'' @ [CHR 0x27] @ ''s Workspace'',
      tenant_slug = generateSlug c (reg_email dto),
      tenant_createdAt = now c, tenant_updatedAt = now c\<rparr>"

text \<open>A registration that asks to join a tenant \<open>t9\<close>, which the demo database does not have.\<close>

definition dave_joins_t9 :: RegisterDto where
  "dave_joins_t9 = \<lparr>reg_email = ''d@x.com'', reg_password = ''Dd4!dddd'',
                     reg_firstName = Some ''Dave'', reg_lastName = None,
                     reg_tenantId = Some ''t9''\<rparr>"

text \<open>
  The membership table after the upsert of \<open>acceptInvitation\<close> and the invitation table
  after the invitation \<open>iid\<close> has been marked accepted.
\<close>

definition upserted :: "call \<Rightarrow> TenantUser list \<Rightarrow> string \<Rightarrow> string \<Rightarrow> TenantRole \<Rightarrow> TenantUser list" where
  "upserted c ms uid tid role =
     (if \<exists>m \<in> set ms. is_membership uid tid m
      then map (\<lambda>m. if is_membership uid tid m then m\<lparr>tu_role := role, tu_updatedAt := now c\<rparr> else m) ms
      else ms @ [new_membership c uid tid role])"

definition marked_accepted :: "call \<Rightarrow> Invitation list \<Rightarrow> string \<Rightarrow> Invitation list" where
  "marked_accepted c ivs iid =
     map (\<lambda>i. if inv_id i = iid then i\<lparr>inv_accepted := True, inv_updatedAt := now c\<rparr> else i) ivs"

text \<open>
  The invited address accepts, with a password; and a call during which the database
  loses the connection at the commit.
\<close>

definition carol_accepts :: AcceptInvitationDto where
  "carol_accepts = \<lparr>acc_token = ''tok-c'', acc_password = Some ''Cc3!cccc''\<rparr>"

definition commit_lost :: call where
  "commit_lost = demo_call\<lparr>outage := (\<lambda>s. s = Commit)\<rparr>"

definition carol :: User where
  "carol = new_user commit_lost ''c@x.com'' ''$2b$Cc3!cccc'' None None"

section \<open>The operations on the stores\<close>

text \<open>
  The five requests of the controller (with both variants of \<open>login\<close>) and the
  repository methods that write the membership, invitation and refresh-token tables or
  delete rows they depend on. \<open>perform\<close> runs one of them and returns the refresh token
  it handed out, if any, and the database after it; a repository method that throws
  leaves the database as it was.
\<close>

datatype operation =
    Register RegisterDto
  | Login LoginDto
  | LoginGetUserTenants LoginDto
  | Refresh string
  | Logout string
  | AcceptInvitation AcceptInvitationDto
  | InvitationCreate string string TenantRole time string string
  | InvitationMarkAsAccepted string
  | InvitationDelete string
  | RevokeAllForUser string
  | DeleteExpired
  | UserDelete string
  | TenantDelete string
  | AddUserToTenant string string TenantRole
  | UpdateUserRole string string TenantRole
  | RemoveUserFromTenant string string

definition issued_by :: "(error + TokenPair) \<times> db \<Rightarrow> string option \<times> db" where
  "issued_by x = (case x of (Inl e, d') \<Rightarrow> (None, d') | (Inr pair, d') \<Rightarrow> (Some (refresh_token pair), d'))"

definition issued_with_profile :: "(error + AuthResult) \<times> db \<Rightarrow> string option \<times> db" where
  "issued_with_profile x =
     (case x of
        (Inl e, d') \<Rightarrow> (None, d')
      | (Inr res, d') \<Rightarrow> (Some (refresh_token (res_tokens res)), d'))"

definition written :: "db \<Rightarrow> error + db \<Rightarrow> string option \<times> db" where
  "written d x = (case x of Inl e \<Rightarrow> (None, d) | Inr d' \<Rightarrow> (None, d'))"

definition written_row :: "db \<Rightarrow> error + 'a \<times> db \<Rightarrow> string option \<times> db" where
  "written_row d x = (case x of Inl e \<Rightarrow> (None, d) | Inr (row, d') \<Rightarrow> (None, d'))"

fun perform :: "env \<Rightarrow> call \<Rightarrow> db \<Rightarrow> operation \<Rightarrow> string option \<times> db" where
  "perform env c d (Register dto) = issued_with_profile (register env c d dto)"
| "perform env c d (Login dto) = issued_by (login env c d dto)"
| "perform env c d (LoginGetUserTenants dto) = issued_by (login_getUserTenants env c d dto)"
| "perform env c d (Refresh token) = issued_by (refreshToken env c d token)"
| "perform env c d (Logout token) = (None, snd (logout env c d token))"
| "perform env c d (AcceptInvitation dto) = issued_with_profile (acceptInvitation env c d dto)"
| "perform env c d (InvitationCreate email token role expiresAt tid invitedBy) =
     written_row d (InvitationRepository_create c d email token role expiresAt tid invitedBy)"
| "perform env c d (InvitationMarkAsAccepted iid) =
     written d (InvitationRepository_markAsAccepted c d iid)"
| "perform env c d (InvitationDelete iid) = written d (InvitationRepository_delete c d iid)"
| "perform env c d (RevokeAllForUser uid) =
     written d (RefreshTokenRepository_revokeAllForUser c d uid)"
| "perform env c d DeleteExpired = written_row d (RefreshTokenRepository_deleteExpired c d)"
| "perform env c d (UserDelete uid) = written d (UserRepository_delete c d uid)"
| "perform env c d (TenantDelete tid) = written d (TenantRepository_delete c d tid)"
| "perform env c d (AddUserToTenant uid tid role) =
     written_row d (TenantRepository_addUserToTenant c d uid tid role)"
| "perform env c d (UpdateUserRole uid tid role) =
     written d (TenantRepository_updateUserRole c d uid tid role)"
| "perform env c d (RemoveUserFromTenant uid tid) =
     written d (TenantRepository_removeUserFromTenant c d uid tid)"


text \<open>
  What an operation may do to the refresh-token table: when it handed out the token
  \<open>raw\<close>, one row was appended and holds the digest of \<open>raw\<close>; otherwise the table
  is as before.
\<close>

definition signed_refresh :: "env \<Rightarrow> call \<Rightarrow> string \<Rightarrow> bool" where
  "signed_refresh env c raw =
     (\<exists>payload. jwt_sign env payload (cfg_jwt_refreshSecret env)
                  (Some (or_else (cfg_jwt_refreshExpiresIn env) ''30d'')) (now c) = Some raw)"

definition issue_effect :: "env \<Rightarrow> call \<Rightarrow> db \<Rightarrow> string option \<times> db \<Rightarrow> bool" where
  "issue_effect env c d x =
     (case x of
        (None, d') \<Rightarrow> refreshTokens d' = refreshTokens d
      | (Some raw, d') \<Rightarrow>
          refreshTokens d' \<noteq> [] \<and> butlast (refreshTokens d') = refreshTokens d
          \<and> rt_token (last (refreshTokens d')) = sha256_hex env raw
          \<and> signed_refresh env c raw)"

text \<open>
  What is known of the libraries' outputs: a hex digest has no dot in it, and a signed
  token, three segments joined by dots, has one. A store holds digests only when every
  token value in it is the digest of something.
\<close>

definition hex_digest :: "env \<Rightarrow> bool" where
  "hex_digest env = (\<forall>s. CHR ''.'' \<notin> set (sha256_hex env s))"

definition compact_jwt :: "env \<Rightarrow> bool" where
  "compact_jwt env =
     (\<forall>payload key expiresIn t token.
        jwt_sign env payload key expiresIn t = Some token \<longrightarrow> CHR ''.'' \<in> set token)"

definition token_values :: "db \<Rightarrow> string set" where
  "token_values d = rt_token ` set (refreshTokens d)"

definition digests_only :: "env \<Rightarrow> db \<Rightarrow> bool" where
  "digests_only env d = (token_values d \<subseteq> range (sha256_hex env))"


section \<open>Properties\<close>

subsection \<open>Auxiliary facts\<close>

lemma find_SomeD: "find P xs = Some x \<Longrightarrow> P x \<and> x \<in> set xs"
  by (induction xs) (auto split: if_splits)

lemma thirty_days_pos: "0 < thirty_days"
  by (simp add: thirty_days_def)

lemma generateTokens_Inl: "generateTokens env c d u t = (Inl e, d') \<Longrightarrow> d' = d"
  by (auto simp: generateTokens_def Let_def split: option.splits sum.splits prod.splits)

lemma generateTokens_Inr:
  assumes "generateTokens env c d u t = (Inr p, d')"
  shows "jwt_sign env \<lparr>sub = u, tenantId = t\<rparr> (cfg_jwt_secret env) (cfg_jwt_expiresIn env) (now c)
           = Some (accessToken p)"
    and "jwt_sign env \<lparr>sub = u, tenantId = t\<rparr> (cfg_jwt_refreshSecret env)
           (Some (or_else (cfg_jwt_refreshExpiresIn env) ''30d'')) (now c) = Some (refresh_token p)"
    and "d' = d\<lparr>refreshTokens := refreshTokens d @ [issued_row env c u (refresh_token p)]\<rparr>"
    and "\<not> outage c RefreshTokenCreate"
    and "\<forall>r \<in> set (refreshTokens d). rt_token r \<noteq> hashToken env (refresh_token p)"
  using assms
  by (auto simp: generateTokens_def RefreshTokenRepository_create_def refreshToken_create_def
      reach_def issued_row_def Let_def split: option.splits sum.splits prod.splits if_splits)

lemma generateTokens_tenantUsers:
  "generateTokens env c (d\<lparr>tenantUsers := ms\<rparr>) u t =
     apsnd (tenantUsers_update (\<lambda>_. ms)) (generateTokens env c d u t)"
  by (auto simp: generateTokens_def RefreshTokenRepository_create_def refreshToken_create_def
      reach_def user_exists_def Let_def split: option.splits sum.splits prod.splits)

lemma refreshToken_body_tenantUsers:
  "refreshToken_body env c (d\<lparr>tenantUsers := ms\<rparr>) token =
     apsnd (tenantUsers_update (\<lambda>_. ms)) (refreshToken_body env c d token)"
  by (auto simp: refreshToken_body_def generateTokens_tenantUsers
      RefreshTokenRepository_findByToken_def refreshToken_findUnique_token_def
      UserRepository_findById_def user_findUnique_id_def UserMapper_toEntity_def
      reach_def Let_def split: option.splits sum.splits)

lemma refreshToken_tenantUsers:
  "refreshToken env c (d\<lparr>tenantUsers := ms\<rparr>) token =
     apsnd (tenantUsers_update (\<lambda>_. ms)) (refreshToken env c d token)"
  by (auto simp: refreshToken_def refreshToken_body_tenantUsers split: sum.splits prod.splits)

lemma refreshToken_body_Inr:
  assumes "refreshToken_body env c d token = (Inr p, d')"
  shows "\<exists>payload stored. jwt_verify env token (cfg_jwt_refreshSecret env) (now c) = Some payload
     \<and> \<not> outage c RefreshTokenFindUnique
     \<and> find (\<lambda>r. rt_token r = hashToken env token) (refreshTokens d) = Some stored
     \<and> rt_isValid c stored
     \<and> (\<exists>user \<in> set (users d). user_id user = sub payload)
     \<and> generateTokens env c d (sub payload) (tenantId payload) = (Inr p, d')"
  using assms
  by (auto simp: refreshToken_body_def
      RefreshTokenRepository_findByToken_def refreshToken_findUnique_token_def
      UserRepository_findById_def user_findUnique_id_def UserMapper_toEntity_def
      reach_def Let_def split: option.splits sum.splits if_splits dest!: find_SomeD)

lemma refreshToken_Inr:
  "refreshToken env c d token = (Inr p, d') \<Longrightarrow> refreshToken_body env c d token = (Inr p, d')"
  by (auto simp: refreshToken_def split: sum.splits prod.splits)

lemma refreshToken_Inl:
  "refreshToken env c d token = (Inl e, d') \<Longrightarrow> e = AuthInvalidRefreshToken"
  by (auto simp: refreshToken_def split: sum.splits prod.splits)

lemma refreshToken_body_rejected:
  "refresh_rejected env c d token \<Longrightarrow> \<exists>e. refreshToken_body env c d token = (Inl e, d)"
  by (auto simp: refresh_rejected_def refreshToken_body_def hashToken_def rt_isValid_def
      rt_isExpired_def RefreshTokenRepository_findByToken_def refreshToken_findUnique_token_def
      UserRepository_findById_def user_findUnique_id_def reach_def
      split: option.splits sum.splits)

lemmas demo_defs =
  demo_env_def demo_call_def demo_db_def demo_sign_def demo_verify_def demo_sha256_def
  demo_lifetime_def alice_def bob_def acme_def alice_in_acme_def alice_token_def
  alice_stored_def carol_invited_def thirty_days_def

lemma find_append_cases:
  "find P (xs @ ys) = (case find P xs of None \<Rightarrow> find P ys | Some x \<Rightarrow> Some x)"
  by (induction xs) auto

lemma find_None_set: "find P xs = None \<longleftrightarrow> (\<forall>x \<in> set xs. \<not> P x)"
  by (induction xs) auto

lemma refreshToken_body_Inl: "refreshToken_body env c d token = (Inl e, d') \<Longrightarrow> d' = d"
  by (auto simp: refreshToken_body_def split: option.splits sum.splits if_splits
      dest: generateTokens_Inl)

lemmas svc_defs =
  refreshToken_def refreshToken_body_def generateTokens_def logout_def
  RefreshTokenRepository_create_def RefreshTokenRepository_findByToken_def
  RefreshTokenRepository_revoke_def hashToken_def
  refreshToken_create_def refreshToken_findUnique_token_def refreshToken_update_revoked_def
  UserRepository_findById_def UserRepository_findByEmail_def
  UserRepository_findByEmailWithPassword_def UserRepository_getUserTenants_def
  user_findUnique_id_def user_findUnique_email_def user_create_def UserMapper_toEntity_def
  InvitationRepository_findByToken_def invitation_findUnique_token_def
  invitation_update_accepted_def
  TenantRepository_removeUserFromTenant_def tenantUser_delete_def tenantUser_create_def
  tenantUser_upsert_def tenantUser_findMany_userId_def tenantUser_findMany_userId_asc_def
  tenant_findUnique_id_def tenant_create_def is_membership_def transaction_def
  reach_def user_exists_def tenant_exists_def rt_isValid_def rt_isExpired_def inv_isExpired_def
  or_else_def truthy_def excludePassword_def issued_row_def refresh_rejected_def Let_def

subsection \<open>Refresh keeps the tenant of the presented token\<close>

text \<open>
  C1. When a refresh succeeds, both new tokens are signed over the payload the presented
  refresh token verified to: its subject and, unchanged, its tenantId. The memberships
  play no part: with any other membership table the call returns the same pair, in
  particular after \<open>removeUserFromTenant\<close> has deleted the user's membership in that
  tenant.
\<close>

theorem refreshToken_keeps_tenant:
  assumes "refreshToken env c d token = (Inr pair, d')"
  shows "(\<exists>payload. jwt_verify env token (cfg_jwt_refreshSecret env) (now c) = Some payload
           \<and> jwt_sign env \<lparr>sub = sub payload, tenantId = tenantId payload\<rparr>
                 (cfg_jwt_secret env) (cfg_jwt_expiresIn env) (now c) = Some (accessToken pair)
           \<and> jwt_sign env \<lparr>sub = sub payload, tenantId = tenantId payload\<rparr>
                 (cfg_jwt_refreshSecret env) (Some (or_else (cfg_jwt_refreshExpiresIn env) ''30d''))
                 (now c) = Some (refresh_token pair))
       \<and> (\<forall>ms. refreshToken env c (d\<lparr>tenantUsers := ms\<rparr>) token = (Inr pair, d'\<lparr>tenantUsers := ms\<rparr>))
       \<and> (\<forall>c0 uid tid d0. TenantRepository_removeUserFromTenant c0 d uid tid = Inr d0
             \<longrightarrow> fst (refreshToken env c d0 token) = Inr pair)"
proof (intro conjI allI impI)
  from refreshToken_body_Inr [OF refreshToken_Inr [OF assms]]
  obtain payload where v: "jwt_verify env token (cfg_jwt_refreshSecret env) (now c) = Some payload"
    and g: "generateTokens env c d (sub payload) (tenantId payload) = (Inr pair, d')"
    by blast
  from generateTokens_Inr(1,2) [OF g] v
  show "\<exists>payload. jwt_verify env token (cfg_jwt_refreshSecret env) (now c) = Some payload
           \<and> jwt_sign env \<lparr>sub = sub payload, tenantId = tenantId payload\<rparr>
                 (cfg_jwt_secret env) (cfg_jwt_expiresIn env) (now c) = Some (accessToken pair)
           \<and> jwt_sign env \<lparr>sub = sub payload, tenantId = tenantId payload\<rparr>
                 (cfg_jwt_refreshSecret env) (Some (or_else (cfg_jwt_refreshExpiresIn env) ''30d''))
                 (now c) = Some (refresh_token pair)"
    by blast
next
  fix ms
  show "refreshToken env c (d\<lparr>tenantUsers := ms\<rparr>) token = (Inr pair, d'\<lparr>tenantUsers := ms\<rparr>)"
    by (simp add: refreshToken_tenantUsers assms)
next
  fix c0 uid tid d0
  assume "TenantRepository_removeUserFromTenant c0 d uid tid = Inr d0"
  then have "d0 = d\<lparr>tenantUsers := filter (\<lambda>m. \<not> is_membership uid tid m) (tenantUsers d)\<rparr>"
    by (auto simp: TenantRepository_removeUserFromTenant_def tenantUser_delete_def reach_def
        split: if_splits)
  then show "fst (refreshToken env c d0 token) = Inr pair"
    by (simp add: refreshToken_tenantUsers assms)
qed

theorem refreshToken_keeps_tenant_witness:
  "refreshToken demo_env demo_call demo_db alice_token =
     (Inr \<lparr>accessToken = ''as.u1.t1.5000'', refresh_token = ''rs.u1.t1.5000''\<rparr>,
      demo_db\<lparr>refreshTokens := [alice_stored, issued_row demo_env demo_call ''u1'' ''rs.u1.t1.5000'']\<rparr>)
   \<and> TenantRepository_removeUserFromTenant demo_call demo_db ''u1'' ''t1''
       = Inr (demo_db\<lparr>tenantUsers := []\<rparr>)
   \<and> fst (refreshToken demo_env demo_call (demo_db\<lparr>tenantUsers := []\<rparr>) alice_token)
       = Inr \<lparr>accessToken = ''as.u1.t1.5000'', refresh_token = ''rs.u1.t1.5000''\<rparr>"
proof -
  have h: "refreshToken demo_env demo_call demo_db alice_token =
     (Inr \<lparr>accessToken = ''as.u1.t1.5000'', refresh_token = ''rs.u1.t1.5000''\<rparr>,
      demo_db\<lparr>refreshTokens := [alice_stored, issued_row demo_env demo_call ''u1'' ''rs.u1.t1.5000'']\<rparr>)"
    by (simp add: svc_defs demo_defs)
  have r: "TenantRepository_removeUserFromTenant demo_call demo_db ''u1'' ''t1''
       = Inr (demo_db\<lparr>tenantUsers := []\<rparr>)"
    by (simp add: svc_defs demo_defs)
  from refreshToken_keeps_tenant [OF h] r h show ?thesis
    by blast
qed

subsection \<open>Refresh fails with one error only\<close>

text \<open>
  C5. A refresh that does not succeed ends in \<open>AuthInvalidRefreshToken\<close> and nothing
  else, whatever went wrong (the database being unreachable included), and leaves the
  database as it was. Each of the named conditions does make it fail: a token that does
  not verify, a hash absent from the store, a stored record expired or revoked, a
  subject that is no longer a user.
\<close>

theorem refreshToken_single_error:
  "(refresh_rejected env c d token
      \<longrightarrow> refreshToken env c d token = (Inl AuthInvalidRefreshToken, d))
   \<and> (\<forall>e d'. refreshToken env c d token = (Inl e, d')
         \<longrightarrow> e = AuthInvalidRefreshToken \<and> d' = d)"
proof (intro conjI allI impI)
  assume "refresh_rejected env c d token"
  then obtain e where "refreshToken_body env c d token = (Inl e, d)"
    using refreshToken_body_rejected by blast
  then show "refreshToken env c d token = (Inl AuthInvalidRefreshToken, d)"
    by (simp add: refreshToken_def)
next
  fix e d'
  assume a: "refreshToken env c d token = (Inl e, d')"
  then show "e = AuthInvalidRefreshToken"
    by (rule refreshToken_Inl)
  from a obtain e0 where "refreshToken_body env c d token = (Inl e0, d')"
    by (auto simp: refreshToken_def split: sum.splits prod.splits)
  then show "d' = d"
    by (rule refreshToken_body_Inl)
qed

theorem refreshToken_single_error_witness:
  "refresh_rejected demo_env demo_call demo_db ''garbage''
   \<and> refreshToken demo_env demo_call demo_db ''garbage'' = (Inl AuthInvalidRefreshToken, demo_db)
   \<and> refreshToken demo_env (demo_call\<lparr>outage := (\<lambda>s. s = UserFindUnique)\<rparr>) demo_db alice_token
       = (Inl AuthInvalidRefreshToken, demo_db)"
proof -
  have h: "refresh_rejected demo_env demo_call demo_db ''garbage''"
    by (simp add: svc_defs demo_defs)
  have k: "refreshToken demo_env (demo_call\<lparr>outage := (\<lambda>s. s = UserFindUnique)\<rparr>) demo_db alice_token
       = (Inl AuthInvalidRefreshToken, demo_db)"
    by (simp add: svc_defs demo_defs)
  from refreshToken_single_error [of demo_env demo_call demo_db "''garbage''"] h k
  show ?thesis by blast
qed

subsection \<open>Logout always reports success\<close>

text \<open>
  C6. For every token string, every database and every failure of the store, \<open>logout\<close>
  returns the same message and never an error.
\<close>

theorem logout_always_succeeds:
  "fst (logout env c d token) = Inr ''Logged out successfully''"
  by (simp add: logout_def split: sum.splits)

theorem logout_always_succeeds_witness:
  "fst (logout demo_env demo_call demo_db ''garbage'') = Inr ''Logged out successfully''
   \<and> RefreshTokenRepository_revoke demo_env demo_call demo_db ''garbage'' = Inl (Store RecordNotFound)"
  using logout_always_succeeds [of demo_env demo_call demo_db "''garbage''"]
  by (simp add: svc_defs demo_defs)

subsection \<open>Refresh does not rotate\<close>

text \<open>
  C8. A successful refresh changes the database by appending one refresh-token row, the
  one of the new token. The row of the presented token is the same before and after,
  not revoked and valid; the new row is valid as well, so either token passes the store
  check of a later refresh.
\<close>

theorem refreshToken_keeps_old_token:
  assumes "refreshToken env c d token = (Inr pair, d')"
  shows "\<exists>stored payload.
           jwt_verify env token (cfg_jwt_refreshSecret env) (now c) = Some payload
         \<and> find (\<lambda>r. rt_token r = hashToken env token) (refreshTokens d) = Some stored
         \<and> d' = d\<lparr>refreshTokens :=
                    refreshTokens d @ [issued_row env c (sub payload) (refresh_token pair)]\<rparr>
         \<and> find (\<lambda>r. rt_token r = hashToken env token) (refreshTokens d') = Some stored
         \<and> \<not> rt_revoked stored \<and> rt_isValid c stored
         \<and> find (\<lambda>r. rt_token r = hashToken env (refresh_token pair)) (refreshTokens d')
             = Some (issued_row env c (sub payload) (refresh_token pair))
         \<and> rt_isValid c (issued_row env c (sub payload) (refresh_token pair))"
proof -
  from refreshToken_body_Inr [OF refreshToken_Inr [OF assms]]
  obtain payload stored where
        v: "jwt_verify env token (cfg_jwt_refreshSecret env) (now c) = Some payload"
    and f: "find (\<lambda>r. rt_token r = hashToken env token) (refreshTokens d) = Some stored"
    and ok: "rt_isValid c stored"
    and g: "generateTokens env c d (sub payload) (tenantId payload) = (Inr pair, d')"
    by blast
  let ?row = "issued_row env c (sub payload) (refresh_token pair)"
  from generateTokens_Inr(3) [OF g]
  have d': "d' = d\<lparr>refreshTokens := refreshTokens d @ [?row]\<rparr>" .
  from generateTokens_Inr(5) [OF g]
  have fresh: "find (\<lambda>r. rt_token r = hashToken env (refresh_token pair)) (refreshTokens d) = None"
    by (simp add: find_None_set)
  have old: "find (\<lambda>r. rt_token r = hashToken env token) (refreshTokens d') = Some stored"
    by (simp add: d' find_append_cases f)
  have new: "find (\<lambda>r. rt_token r = hashToken env (refresh_token pair)) (refreshTokens d') = Some ?row"
    by (simp add: d' find_append_cases fresh) (simp add: issued_row_def)
  have valid: "rt_isValid c ?row"
    using thirty_days_pos by (simp add: rt_isValid_def rt_isExpired_def issued_row_def)
  from ok have "\<not> rt_revoked stored"
    by (simp add: rt_isValid_def)
  with v f d' old new valid ok show ?thesis
    by blast
qed

theorem refreshToken_keeps_old_token_witness:
  "fst (refreshToken demo_env demo_call demo_db alice_token)
     = Inr \<lparr>accessToken = ''as.u1.t1.5000'', refresh_token = ''rs.u1.t1.5000''\<rparr>
   \<and> (\<exists>stored. find (\<lambda>r. rt_token r = hashToken demo_env alice_token)
                  (refreshTokens (snd (refreshToken demo_env demo_call demo_db alice_token)))
                  = Some stored
          \<and> \<not> rt_revoked stored \<and> rt_isValid demo_call stored)"
proof -
  define d0 where
    "d0 = demo_db\<lparr>refreshTokens :=
                    [alice_stored, issued_row demo_env demo_call ''u1'' ''rs.u1.t1.5000'']\<rparr>"
  have h: "refreshToken demo_env demo_call demo_db alice_token =
     (Inr \<lparr>accessToken = ''as.u1.t1.5000'', refresh_token = ''rs.u1.t1.5000''\<rparr>, d0)"
    by (simp add: d0_def svc_defs demo_defs)
  from refreshToken_keeps_old_token [OF h]
  obtain stored where
    "find (\<lambda>r. rt_token r = hashToken demo_env alice_token) (refreshTokens d0) = Some stored"
    "\<not> rt_revoked stored" "rt_isValid demo_call stored"
    by blast
  then show ?thesis
    by (simp add: h)
qed

subsection \<open>The stored expiry and the configured lifetime\<close>

text \<open>
  C9. With the refresh lifetime configured to seven days the refresh token is signed
  with \<open>7d\<close>, and the row stored for it expires thirty days after the call: the stored
  expiry does not follow the configured lifetime.
\<close>

theorem generateTokens_expiry_ignores_lifetime:
  "generateTokens weekly_env demo_call demo_db ''u1'' ''t1'' =
     (Inr \<lparr>accessToken = ''as.u1.t1.5000'', refresh_token = ''rs.u1.t1.5000''\<rparr>,
      demo_db\<lparr>refreshTokens :=
        [alice_stored,
         \<lparr>rt_id = ''id5'', rt_token = ''5ers0u10t105000'', rt_userId = ''u1'',
          rt_expiresAt = 5000 + 30 * 86400000, rt_revoked = False,
          rt_createdAt = 5000, rt_updatedAt = 5000\<rparr>]\<rparr>)
   \<and> jwt_sign weekly_env \<lparr>sub = ''u1'', tenantId = ''t1''\<rparr> (cfg_jwt_refreshSecret weekly_env)
         (Some ''7d'') (now demo_call) = Some ''rs.u1.t1.5000''
   \<and> now demo_call + lifetime_ms weekly_env ''7d'' = 5000 + 7 * 86400000
   \<and> \<not> stored_expiry_matches_lifetime weekly_env demo_call demo_db ''u1'' ''t1''"
  by (simp add: stored_expiry_matches_lifetime_def weekly_env_def number_of_def svc_defs demo_defs)

theorem generateTokens_expiry_ignores_lifetime_witness:
  "\<not> stored_expiry_matches_lifetime weekly_env demo_call demo_db ''u1'' ''t1''"
  using generateTokens_expiry_ignores_lifetime by blast

subsection \<open>The active tenant at login\<close>

lemma hd_sort_key_least:
  fixes f :: "'a \<Rightarrow> int"
  assumes "sort_key f xs = y # ys"
  shows "y \<in> set xs \<and> (\<forall>x \<in> set xs. f y \<le> f x)"
proof -
  have "set (y # ys) = set xs"
    using assms set_sort [of f xs] by simp
  moreover have "sorted (map f (y # ys))"
    using assms sorted_sort_key [of f xs] by simp
  ultimately show ?thesis
    by auto
qed

text \<open>
  The variant of \<open>login\<close> that asks \<open>getUserTenants\<close> signs the tokens for the tenant of
  an earliest membership of the user.
\<close>

lemma login_getUserTenants_earliest:
  assumes "login_getUserTenants env c d dto = (Inr pair, d')"
  shows "\<exists>user m. find (\<lambda>u. user_email u = login_email dto) (users d) = Some user
           \<and> earliest_membership d (user_id user) m
           \<and> generateTokens env c d (user_id user) (tu_tenantId m) = (Inr pair, d')"
proof -
  from assms obtain user first rest where
        u: "find (\<lambda>u. user_email u = login_email dto) (users d) = Some user"
    and s: "sort_key tu_createdAt (filter (\<lambda>m. tu_userId m = user_id user) (tenantUsers d))
              = first # rest"
    and g: "generateTokens env c d (user_id user) (tu_tenantId first) = (Inr pair, d')"
    by (auto simp: login_getUserTenants_def UserRepository_findByEmailWithPassword_def
        user_findUnique_email_def UserRepository_getUserTenants_def
        tenantUser_findMany_userId_asc_def reach_def
        split: sum.splits option.splits if_splits list.splits)
  from hd_sort_key_least [OF s] have "earliest_membership d (user_id user) first"
    by (auto simp: earliest_membership_def)
  with u g show ?thesis
    by blast
qed

text \<open>
  C2. \<open>login\<close> takes the first membership the table hands out. Here the user's
  memberships are \<open>t2\<close> (created at 300) and \<open>t1\<close> (created at 100), in that table
  order: the tokens are signed for \<open>t2\<close>, while the earliest membership is the one in
  \<open>t1\<close>, which the \<open>getUserTenants\<close> variant picks on the same input.
\<close>

theorem login_first_row_not_earliest:
  "fst (login demo_env demo_call two_tenants_db alice_login)
     = Inr \<lparr>accessToken = ''as.u1.t2.5000'', refresh_token = ''rs.u1.t2.5000''\<rparr>
   \<and> earliest_membership two_tenants_db ''u1'' alice_in_acme
   \<and> \<not> earliest_membership two_tenants_db ''u1'' alice_in_globex
   \<and> fst (login_getUserTenants demo_env demo_call two_tenants_db alice_login)
       = Inr \<lparr>accessToken = ''as.u1.t1.5000'', refresh_token = ''rs.u1.t1.5000''\<rparr>"
  by (simp add: login_def login_getUserTenants_def earliest_membership_def two_tenants_db_def
      alice_login_def globex_def alice_in_globex_def svc_defs demo_defs)

theorem login_first_row_not_earliest_witness:
  "fst (login demo_env demo_call two_tenants_db alice_login)
     = Inr \<lparr>accessToken = ''as.u1.t2.5000'', refresh_token = ''rs.u1.t2.5000''\<rparr>"
  using login_first_row_not_earliest by blast

subsection \<open>Registration is all or nothing\<close>

lemma transaction_Inr:
  "transaction c d body = (Inr x, d') \<Longrightarrow> body d = Inr (x, d') \<and> \<not> outage c Commit"
  by (auto simp: transaction_def split: sum.splits prod.splits if_splits)

lemma transaction_Inl: "transaction c d body = (Inl e, d') \<Longrightarrow> d' = d"
  by (auto simp: transaction_def split: sum.splits prod.splits if_splits)

lemma user_create_Inr:
  "user_create c d email pw fn ln = Inr (u, d') \<Longrightarrow>
     u = new_user c email pw fn ln \<and> d' = d\<lparr>users := users d @ [u]\<rparr>
     \<and> \<not> outage c UserCreate
     \<and> (\<forall>v \<in> set (users d). user_id v \<noteq> user_id u \<and> user_email v \<noteq> email)"
  by (auto simp: user_create_def reach_def new_user_def Let_def split: if_splits)

lemma tenantUser_create_Inr:
  "tenantUser_create c d uid tid role = Inr (m, d') \<Longrightarrow>
     m = new_membership c uid tid role \<and> d' = d\<lparr>tenantUsers := tenantUsers d @ [m]\<rparr>"
  by (auto simp: tenantUser_create_def reach_def new_membership_def Let_def split: if_splits)

lemma tenant_create_Inr:
  "tenant_create c d name slug = Inr (t, d') \<Longrightarrow>
     t = \<lparr>tenant_id = uuid c TenantCreate, tenant_name = name, tenant_slug = slug,
          tenant_createdAt = now c, tenant_updatedAt = now c\<rparr>
     \<and> d' = d\<lparr>tenants := tenants d @ [t]\<rparr>"
  by (auto simp: tenant_create_def reach_def Let_def split: if_splits)

lemma register_join_Inr:
  "register_join c tid u d = Inr ((u', a), d') \<Longrightarrow>
     u' = u \<and> a = tid \<and> tenant_exists d tid
     \<and> d' = d\<lparr>tenantUsers := tenantUsers d @ [new_membership c (user_id u) tid MEMBER]\<rparr>"
  by (auto simp: register_join_def tenant_findUnique_id_def reach_def tenant_exists_def
      split: sum.splits option.splits if_splits dest!: tenantUser_create_Inr find_SomeD)

lemma register_workspace_Inr:
  "register_workspace c dto u d = Inr ((u', a), d') \<Longrightarrow>
     u' = u \<and> a = uuid c TenantCreate
     \<and> d' = d\<lparr>tenants := tenants d @ [new_tenant c dto],
                tenantUsers := tenantUsers d @ [new_membership c (user_id u) a OWNER]\<rparr>"
  by (auto simp: register_workspace_def new_tenant_def Let_def
      split: sum.splits option.splits if_splits dest!: tenantUser_create_Inr tenant_create_Inr)

lemma register_tx_Inr:
  assumes "register_tx c dto h d = Inr ((u, a), d')"
  shows "u = new_user c (reg_email dto) h (reg_firstName dto) (reg_lastName dto)
       \<and> (\<forall>v \<in> set (users d). user_id v \<noteq> user_id u \<and> user_email v \<noteq> reg_email dto)
       \<and> ((truthy (reg_tenantId dto) \<and> reg_tenantId dto = Some a \<and> tenant_exists d a
            \<and> d' = d\<lparr>users := users d @ [u],
                      tenantUsers := tenantUsers d @ [new_membership c (user_id u) a MEMBER]\<rparr>)
          \<or> (\<not> truthy (reg_tenantId dto) \<and> a = uuid c TenantCreate
              \<and> d' = d\<lparr>users := users d @ [u], tenants := tenants d @ [new_tenant c dto],
                        tenantUsers := tenantUsers d @ [new_membership c (user_id u) a OWNER]\<rparr>))"
  using assms
  by (auto simp: register_tx_def truthy_def tenant_exists_def
      split: sum.splits option.splits if_splits
      dest!: user_create_Inr register_join_Inr register_workspace_Inr)


lemma register_cases:
  assumes "register env c d dto = (r, d')"
  shows "(\<exists>e. r = Inl e \<and> d' = d)
       \<or> (\<exists>u a d1. register_tx c dto (bcrypt_hash env (reg_password dto) 12) d = Inr ((u, a), d1)
             \<and> \<not> outage c Commit
             \<and> ((\<exists>e. r = Inl e \<and> d' = d1)
                \<or> (\<exists>tokens. r = Inr \<lparr>res_user = excludePassword u, res_tokens = tokens\<rparr>
                      \<and> generateTokens env c d1 (user_id u) a = (Inr tokens, d'))))"
proof (cases "UserRepository_findByEmail c d (reg_email dto)")
  case (Inl e)
  with assms show ?thesis by (auto simp: register_def)
next
  case (Inr found)
  show ?thesis
  proof (cases found)
    case (Some existing)
    with Inr assms show ?thesis by (auto simp: register_def)
  next
    case None
    let ?h = "bcrypt_hash env (reg_password dto) 12"
    obtain t d1 where tx: "transaction c d (register_tx c dto ?h) = (t, d1)"
      by (cases "transaction c d (register_tx c dto ?h)")
    show ?thesis
    proof (cases t)
      case (Inl e)
      with tx Inr None assms transaction_Inl [of c d _ e d1] show ?thesis
        by (auto simp: register_def)
    next
      case tr: (Inr ua)
      obtain u a where ua: "ua = (u, a)" by (cases ua)
      from tx tr ua transaction_Inr [of c d "register_tx c dto ?h" "(u, a)" d1]
      have body: "register_tx c dto ?h d = Inr ((u, a), d1)" and commit: "\<not> outage c Commit"
        by auto
      obtain g d2 where g: "generateTokens env c d1 (user_id u) a = (g, d2)"
        by (cases "generateTokens env c d1 (user_id u) a")
      show ?thesis
      proof (cases g)
        case (Inl e)
        with g generateTokens_Inl [of env c d1 "user_id u" a e d2] have "d2 = d1" by simp
        with Inl g tx tr ua Inr None assms body commit show ?thesis
          by (auto simp: register_def)
      next
        case (Inr tokens)
        with g tx tr ua \<open>UserRepository_findByEmail c d (reg_email dto) = Inr found\<close> None assms
          body commit
        show ?thesis
          by (auto simp: register_def)
      qed
    qed
  qed
qed

lemma register_TenantNotFound:
  assumes "reg_tenantId dto = Some tid" "tid \<noteq> []" "\<not> tenant_exists d tid"
    and "\<not> outage c UserFindUnique" "\<not> outage c UserCreate" "\<not> outage c TenantFindUnique"
    and "\<forall>v \<in> set (users d). user_email v \<noteq> reg_email dto \<and> user_id v \<noteq> uuid c UserCreate"
  shows "register env c d dto = (Inl (AuthTenantNotFound tid), d)"
proof -
  have f: "find (\<lambda>u. user_email u = reg_email dto) (users d) = None"
    using assms(7) by (simp add: find_None_set)
  have t: "\<And>us. find (\<lambda>t. tenant_id t = tid) (tenants (d\<lparr>users := us\<rparr>)) = None"
    using assms(3) by (simp add: find_None_set tenant_exists_def)
  have "register_tx c dto (bcrypt_hash env (reg_password dto) 12) d = Inl (AuthTenantNotFound tid)"
    using assms t
    by (auto simp: register_tx_def user_create_def register_join_def tenant_findUnique_id_def
        reach_def Let_def)
  then show ?thesis
    using assms(4) f
    by (simp add: register_def UserRepository_findByEmail_def user_findUnique_email_def
        reach_def transaction_def)
qed

text \<open>
  C3. Whatever happens in a call of \<open>register\<close>, it ends in one of two ways: the call
  failed and the database is the one before it, or exactly one user was added together
  with one membership of that user in a tenant the database has. When a tenantId is
  given and no such tenant exists,
  the call fails and the database is unchanged; the error is \<open>AuthTenantNotFound\<close>
  whenever the call gets as far as the tenant lookup (the email is free, the database
  answers the three statements before it and draws a fresh user id).
\<close>

theorem register_atomic:
  assumes "register env c d dto = (r, d')"
  shows "((d' = d \<and> (\<exists>e. r = Inl e))
          \<or> (\<exists>u m. users d' = users d @ [u] \<and> tenantUsers d' = tenantUsers d @ [m]
                \<and> tu_userId m = user_id u \<and> user_email u = reg_email dto
                \<and> tenant_exists d' (tu_tenantId m)))
       \<and> (\<forall>tid. reg_tenantId dto = Some tid \<and> tid \<noteq> [] \<and> \<not> tenant_exists d tid \<longrightarrow>
             d' = d \<and> (\<exists>e. r = Inl e)
             \<and> (\<not> outage c UserFindUnique \<and> \<not> outage c UserCreate \<and> \<not> outage c TenantFindUnique
                  \<and> (\<forall>v \<in> set (users d). user_email v \<noteq> reg_email dto
                                            \<and> user_id v \<noteq> uuid c UserCreate)
                \<longrightarrow> r = Inl (AuthTenantNotFound tid)))"
proof (intro conjI allI impI)
  from register_cases [OF assms]
  show "(d' = d \<and> (\<exists>e. r = Inl e))
          \<or> (\<exists>u m. users d' = users d @ [u] \<and> tenantUsers d' = tenantUsers d @ [m]
                \<and> tu_userId m = user_id u \<and> user_email u = reg_email dto
                \<and> tenant_exists d' (tu_tenantId m))"
  proof (elim disjE exE conjE)
    fix e assume "r = Inl e" "d' = d"
    then show ?thesis by simp
  next
    fix u a d1 e
    assume tx: "register_tx c dto (bcrypt_hash env (reg_password dto) 12) d = Inr ((u, a), d1)"
      and "d' = d1"
    with register_tx_Inr [OF tx] show ?thesis
      by (auto simp: new_membership_def new_user_def new_tenant_def tenant_exists_def)
  next
    fix u a d1 tokens
    assume tx: "register_tx c dto (bcrypt_hash env (reg_password dto) 12) d = Inr ((u, a), d1)"
      and g: "generateTokens env c d1 (user_id u) a = (Inr tokens, d')"
    from generateTokens_Inr(3) [OF g] register_tx_Inr [OF tx] show ?thesis
      by (auto simp: new_membership_def new_user_def new_tenant_def tenant_exists_def)
  qed
next
  fix tid
  assume h: "reg_tenantId dto = Some tid \<and> tid \<noteq> [] \<and> \<not> tenant_exists d tid"
  from register_cases [OF assms] h
  have "\<exists>e. r = Inl e \<and> d' = d"
  proof (elim disjE exE conjE)
    fix e assume "r = Inl e" "d' = d"
    then show ?thesis by simp
  next
    fix u a d1 e
    assume tx: "register_tx c dto (bcrypt_hash env (reg_password dto) 12) d = Inr ((u, a), d1)"
    from register_tx_Inr [OF tx] h show ?thesis
      by (auto simp: truthy_def)
  next
    fix u a d1 tokens
    assume tx: "register_tx c dto (bcrypt_hash env (reg_password dto) 12) d = Inr ((u, a), d1)"
    from register_tx_Inr [OF tx] h show ?thesis
      by (auto simp: truthy_def)
  qed
  then show "d' = d" and "\<exists>e. r = Inl e"
    by auto
next
  fix tid
  assume h: "reg_tenantId dto = Some tid \<and> tid \<noteq> [] \<and> \<not> tenant_exists d tid"
    and k: "\<not> outage c UserFindUnique \<and> \<not> outage c UserCreate \<and> \<not> outage c TenantFindUnique
            \<and> (\<forall>v \<in> set (users d). user_email v \<noteq> reg_email dto \<and> user_id v \<noteq> uuid c UserCreate)"
  from h k have "register env c d dto = (Inl (AuthTenantNotFound tid), d)"
    by (intro register_TenantNotFound) auto
  with assms show "r = Inl (AuthTenantNotFound tid)"
    by simp
qed

theorem register_atomic_witness:
  "reg_tenantId dave_joins_t9 = Some ''t9'' \<and> \<not> tenant_exists demo_db ''t9''
   \<and> register demo_env demo_call demo_db dave_joins_t9 = (Inl (AuthTenantNotFound ''t9''), demo_db)"
proof -
  obtain r d' where reg: "register demo_env demo_call demo_db dave_joins_t9 = (r, d')"
    by (cases "register demo_env demo_call demo_db dave_joins_t9")
  have h: "reg_tenantId dave_joins_t9 = Some ''t9'' \<and> ''t9'' \<noteq> [] \<and> \<not> tenant_exists demo_db ''t9''"
    by (simp add: dave_joins_t9_def tenant_exists_def demo_defs)
  have k: "\<not> outage demo_call UserFindUnique \<and> \<not> outage demo_call UserCreate
           \<and> \<not> outage demo_call TenantFindUnique
           \<and> (\<forall>v \<in> set (users demo_db). user_email v \<noteq> reg_email dave_joins_t9
                                           \<and> user_id v \<noteq> uuid demo_call UserCreate)"
    by (simp add: dave_joins_t9_def demo_defs)
  from register_atomic [OF reg] h k have "d' = demo_db" and "r = Inl (AuthTenantNotFound ''t9'')"
    by blast+
  with reg h show ?thesis
    by simp
qed

subsection \<open>Accepting an invitation\<close>

lemma tenantUser_upsert_Inr:
  "tenantUser_upsert c d uid tid role = Inr d' \<Longrightarrow>
     d' = d\<lparr>tenantUsers := upserted c (tenantUsers d) uid tid role\<rparr> \<and> \<not> outage c TenantUserUpsert"
  by (auto simp: tenantUser_upsert_def upserted_def new_membership_def reach_def split: if_splits)

lemma invitation_update_accepted_Inr:
  "invitation_update_accepted c d iid = Inr d' \<Longrightarrow>
     d' = d\<lparr>invitations := marked_accepted c (invitations d) iid\<rparr> \<and> \<not> outage c InvitationUpdate"
  by (auto simp: invitation_update_accepted_def marked_accepted_def reach_def split: if_splits)

lemma acceptInvitation_tx_Inr:
  "acceptInvitation_tx c u iv d = Inr (x, d') \<Longrightarrow>
     d' = d\<lparr>tenantUsers := upserted c (tenantUsers d) (user_id u) (inv_tenantId iv) (inv_role iv),
            invitations := marked_accepted c (invitations d) (inv_id iv)\<rparr>
     \<and> \<not> outage c TenantUserUpsert \<and> \<not> outage c InvitationUpdate"
  by (auto simp: acceptInvitation_tx_def split: sum.splits
      dest!: tenantUser_upsert_Inr invitation_update_accepted_Inr)

lemma acceptInvitation_user_Inr:
  "acceptInvitation_user env c d dto iv found = Inr (u, d1) \<Longrightarrow>
     (found = Some u \<and> d1 = d)
     \<or> (found = None \<and> truthy (acc_password dto)
        \<and> u = new_user c (inv_email iv) (bcrypt_hash env (or_else (acc_password dto) []) 12) None None
        \<and> d1 = d\<lparr>users := users d @ [u]\<rparr>)"
  by (auto simp: acceptInvitation_user_def Let_def split: option.splits if_splits
      dest!: user_create_Inr)

lemma acceptInvitation_cases:
  assumes "acceptInvitation env c d dto = (r, d')"
  shows "(\<exists>e. r = Inl e \<and> d' = d)
       \<or> (\<exists>iv u d1.
             \<not> outage c InvitationFindUnique
           \<and> find (\<lambda>i. inv_token i = acc_token dto) (invitations d) = Some iv
           \<and> \<not> inv_accepted iv \<and> \<not> inv_isExpired c iv
           \<and> acceptInvitation_user env c d dto iv
                (find (\<lambda>u. user_email u = inv_email iv) (users d)) = Inr (u, d1)
           \<and> ((\<exists>e. r = Inl e \<and> d' = d1
                  \<and> fst (transaction c d1 (acceptInvitation_tx c u iv)) = Inl e)
              \<or> (\<exists>d2. acceptInvitation_tx c u iv d1 = Inr ((), d2) \<and> \<not> outage c Commit
                    \<and> ((\<exists>e. r = Inl e \<and> d' = d2)
                       \<or> (\<exists>tokens. r = Inr \<lparr>res_user = excludePassword u, res_tokens = tokens\<rparr>
                             \<and> generateTokens env c d2 (user_id u) (inv_tenantId iv)
                                 = (Inr tokens, d'))))))"
proof (cases "InvitationRepository_findByToken c d (acc_token dto)")
  case (Inl e)
  with assms show ?thesis by (auto simp: acceptInvitation_def)
next
  case (Inr looked)
  then have reach: "\<not> outage c InvitationFindUnique"
    and looked: "looked = find (\<lambda>i. inv_token i = acc_token dto) (invitations d)"
    by (auto simp: InvitationRepository_findByToken_def invitation_findUnique_token_def reach_def
        split: if_splits)
  show ?thesis
  proof (cases looked)
    case None
    with Inr assms show ?thesis by (auto simp: acceptInvitation_def)
  next
    case (Some iv)
    show ?thesis
    proof (cases "inv_accepted iv \<or> inv_isExpired c iv")
      case True
      with Some Inr assms show ?thesis by (auto simp: acceptInvitation_def split: if_splits)
    next
      case pending: False
      show ?thesis
      proof (cases "UserRepository_findByEmailWithPassword c d (inv_email iv)")
        case (Inl e)
        with pending Some Inr assms show ?thesis by (auto simp: acceptInvitation_def)
      next
        case fu: (Inr found)
        then have found: "found = find (\<lambda>u. user_email u = inv_email iv) (users d)"
          by (auto simp: UserRepository_findByEmailWithPassword_def user_findUnique_email_def
              reach_def split: if_splits)
        show ?thesis
        proof (cases "acceptInvitation_user env c d dto iv found")
          case (Inl e)
          with fu pending Some Inr assms show ?thesis by (auto simp: acceptInvitation_def)
        next
          case au: (Inr ud)
          obtain u d1 where ud: "ud = (u, d1)" by (cases ud)
          obtain t d2 where tx: "transaction c d1 (acceptInvitation_tx c u iv) = (t, d2)"
            by (cases "transaction c d1 (acceptInvitation_tx c u iv)")
          show ?thesis
          proof (cases t)
            case (Inl e)
            with tx transaction_Inl [of c d1 _ e d2] have "d2 = d1" by simp
            with Inl tx au ud fu pending Some Inr assms reach looked found show ?thesis
              by (auto simp: acceptInvitation_def)
          next
            case tr: (Inr x)
            from tx tr transaction_Inr [of c d1 "acceptInvitation_tx c u iv" x d2]
            have body: "acceptInvitation_tx c u iv d1 = Inr ((), d2)"
              and commit: "\<not> outage c Commit"
              by auto
            obtain g d3 where g: "generateTokens env c d2 (user_id u) (inv_tenantId iv) = (g, d3)"
              by (cases "generateTokens env c d2 (user_id u) (inv_tenantId iv)")
            show ?thesis
            proof (cases g)
              case (Inl e)
              with g generateTokens_Inl [of env c d2 _ _ e d3] have "d3 = d2" by simp
              with Inl g tx tr au ud fu pending Some Inr assms reach looked found body commit
              show ?thesis
                by (auto simp: acceptInvitation_def)
            next
              case gr: (Inr tokens)
              with g tx tr au ud fu pending Some Inr assms reach looked found body commit
              show ?thesis
                by (auto simp: acceptInvitation_def)
            qed
          qed
        qed
      qed
    qed
  qed
qed



text \<open>
  The method written against the Prisma client. When the invitation is open, no user
  has its address and a password is supplied, the user row is written before the
  transaction starts. If the transaction then fails, for whatever reason, the call fails
  with the transaction's error and the database is the old one plus the new user: the
  invitation is still found unaccepted, the membership table is the old one, and
  (memberships referring to existing users only) the new user has no membership.
\<close>

lemma acceptInvitation_user_outlives_transaction:
  assumes "\<not> outage c InvitationFindUnique"
    and "find (\<lambda>i. inv_token i = acc_token dto) (invitations d) = Some iv"
    and "\<not> inv_accepted iv" and "\<not> inv_isExpired c iv"
    and "\<not> outage c UserFindUnique"
    and "find (\<lambda>u. user_email u = inv_email iv) (users d) = None"
    and "truthy (acc_password dto)"
    and "\<not> outage c UserCreate"
    and "\<forall>v \<in> set (users d). user_id v \<noteq> uuid c UserCreate"
    and "u = new_user c (inv_email iv) (bcrypt_hash env (or_else (acc_password dto) []) 12) None None"
    and "fst (transaction c (d\<lparr>users := users d @ [u]\<rparr>) (acceptInvitation_tx c u iv)) = Inl e"
  shows "acceptInvitation env c d dto = (Inl e, d\<lparr>users := users d @ [u]\<rparr>)
       \<and> u \<notin> set (users d)
       \<and> find (\<lambda>i. inv_token i = acc_token dto) (invitations (d\<lparr>users := users d @ [u]\<rparr>)) = Some iv
       \<and> ((\<forall>m \<in> set (tenantUsers d). user_exists d (tu_userId m))
            \<longrightarrow> (\<forall>m \<in> set (tenantUsers (d\<lparr>users := users d @ [u]\<rparr>)). tu_userId m \<noteq> user_id u))"
proof (intro conjI impI)
  let ?d1 = "d\<lparr>users := users d @ [u]\<rparr>"
  have nouser: "\<forall>v \<in> set (users d). user_email v \<noteq> inv_email iv"
    using assms(6) by (simp add: find_None_set)
  have cu: "acceptInvitation_user env c d dto iv None = Inr (u, ?d1)"
    using assms(7,8,9,10) nouser
    by (auto simp: acceptInvitation_user_def user_create_def new_user_def reach_def Let_def)
  obtain t dx where tx: "transaction c ?d1 (acceptInvitation_tx c u iv) = (t, dx)"
    by (cases "transaction c ?d1 (acceptInvitation_tx c u iv)")
  with assms(11) have t: "t = Inl e" by simp
  with tx transaction_Inl [of c ?d1 _ e dx] have "dx = ?d1" by simp
  with tx t cu assms(1-6)
  show "acceptInvitation env c d dto = (Inl e, ?d1)"
    by (simp add: acceptInvitation_def InvitationRepository_findByToken_def
        invitation_findUnique_token_def UserRepository_findByEmailWithPassword_def
        user_findUnique_email_def reach_def)
  show "u \<notin> set (users d)"
    using assms(9,10) by (auto simp: new_user_def)
  show "find (\<lambda>i. inv_token i = acc_token dto) (invitations ?d1) = Some iv"
    using assms(2) by simp
  assume fk: "\<forall>m \<in> set (tenantUsers d). user_exists d (tu_userId m)"
  show "\<forall>m \<in> set (tenantUsers ?d1). tu_userId m \<noteq> user_id u"
    using fk assms(9,10) by (auto simp: user_exists_def new_user_def)
qed

lemma acceptInvitation_user_outlives_transaction_demo:
  "fst (transaction commit_lost (demo_db\<lparr>users := users demo_db @ [carol]\<rparr>)
          (acceptInvitation_tx commit_lost carol carol_invited)) = Inl (Store Unavailable)
   \<and> acceptInvitation demo_env commit_lost demo_db carol_accepts
        = (Inl (Store Unavailable), demo_db\<lparr>users := users demo_db @ [carol]\<rparr>)
   \<and> tenantUsers (demo_db\<lparr>users := users demo_db @ [carol]\<rparr>) = [alice_in_acme]"
proof -
  have tx: "fst (transaction commit_lost (demo_db\<lparr>users := users demo_db @ [carol]\<rparr>)
          (acceptInvitation_tx commit_lost carol carol_invited)) = Inl (Store Unavailable)"
    by (simp add: acceptInvitation_tx_def carol_def commit_lost_def new_user_def svc_defs demo_defs)
  have "acceptInvitation demo_env commit_lost demo_db carol_accepts
        = (Inl (Store Unavailable), demo_db\<lparr>users := users demo_db @ [carol]\<rparr>)"
  proof (rule acceptInvitation_user_outlives_transaction [THEN conjunct1])
    show "find (\<lambda>i. inv_token i = acc_token carol_accepts) (invitations demo_db) = Some carol_invited"
      by (simp add: carol_accepts_def demo_defs)
    show "carol = new_user commit_lost (inv_email carol_invited)
            (bcrypt_hash demo_env (or_else (acc_password carol_accepts) []) 12) None None"
      by (simp add: carol_def carol_accepts_def or_else_def demo_defs)
    show "fst (transaction commit_lost (demo_db\<lparr>users := users demo_db @ [carol]\<rparr>)
          (acceptInvitation_tx commit_lost carol carol_invited)) = Inl (Store Unavailable)"
      by (rule tx)
  qed (simp_all add: carol_accepts_def commit_lost_def inv_isExpired_def truthy_def demo_defs)
  with tx show ?thesis
    by (simp add: demo_db_def)
qed

text \<open>
  The method written against TypeORM, in the same situation, when the statements of the
  callback go through and the commit does not: the call fails, the database is the old
  one plus the new user, the membership table is the old one, and the invitation has
  been marked accepted.
\<close>

lemma acceptInvitation_typeorm_manager_succeeds:
  assumes "\<not> outage c TenantUserFindOne" "\<not> outage c TenantUserSave"
    and "user_exists d (user_id u)" "tenant_exists d (inv_tenantId iv)"
  shows "\<exists>managed. acceptInvitation_typeorm_manager c u iv d = Inr managed"
  using assms
  by (auto simp: acceptInvitation_typeorm_manager_def tenantUser_findOne_def tenantUser_save_def
      reach_def is_membership_def split: option.splits dest!: find_SomeD)

lemma acceptInvitation_typeorm_commit_failure:
  assumes "\<not> outage c InvitationFindUnique"
    and "find (\<lambda>i. inv_token i = acc_token dto) (invitations d) = Some iv"
    and "\<not> inv_accepted iv" and "\<not> inv_isExpired c iv"
    and "\<not> outage c UserFindUnique"
    and "find (\<lambda>u. user_email u = inv_email iv) (users d) = None"
    and "truthy (acc_password dto)"
    and "\<not> outage c UserCreate"
    and "\<forall>v \<in> set (users d). user_id v \<noteq> uuid c UserCreate"
    and "u = new_user c (inv_email iv) (bcrypt_hash env (or_else (acc_password dto) []) 12) None None"
    and "\<not> outage c TenantUserFindOne" "\<not> outage c TenantUserSave"
    and "tenant_exists d (inv_tenantId iv)"
    and "\<not> outage c InvitationUpdate" and "outage c Commit"
  shows "acceptInvitation_typeorm env c d dto =
           (Inl (Store Unavailable),
            d\<lparr>users := users d @ [u],
              invitations := marked_accepted c (invitations d) (inv_id iv)\<rparr>)"
proof -
  let ?d1 = "d\<lparr>users := users d @ [u]\<rparr>"
  have nouser: "\<forall>v \<in> set (users d). user_email v \<noteq> inv_email iv"
    using assms(6) by (simp add: find_None_set)
  have cu: "acceptInvitation_user env c d dto iv None = Inr (u, ?d1)"
    using assms(7,8,9,10) nouser
    by (auto simp: acceptInvitation_user_def user_create_def new_user_def reach_def Let_def)
  have "user_exists ?d1 (user_id u)" "tenant_exists ?d1 (inv_tenantId iv)"
    using assms(13) by (auto simp: user_exists_def tenant_exists_def)
  from acceptInvitation_typeorm_manager_succeeds [OF assms(11,12) this]
  obtain managed where m: "acceptInvitation_typeorm_manager c u iv ?d1 = Inr managed"
    by blast
  have "iv \<in> set (invitations d)"
    using assms(2) by (auto dest: find_SomeD)
  then have mk: "InvitationRepository_markAsAccepted c ?d1 (inv_id iv) =
      Inr (?d1\<lparr>invitations := marked_accepted c (invitations d) (inv_id iv)\<rparr>)"
    using assms(14)
    by (auto simp: InvitationRepository_markAsAccepted_def invitation_update_accepted_def
        marked_accepted_def reach_def)
  have "acceptInvitation_typeorm_transaction c u iv ?d1 =
      (Inl (Store Unavailable), ?d1\<lparr>invitations := marked_accepted c (invitations d) (inv_id iv)\<rparr>)"
    using m mk assms(15) by (simp add: acceptInvitation_typeorm_transaction_def)
  with cu assms(1-6) show ?thesis
    by (simp add: acceptInvitation_typeorm_def InvitationRepository_findByToken_def
        invitation_findUnique_token_def UserRepository_findByEmailWithPassword_def
        user_findUnique_email_def reach_def)
qed

text \<open>
  C10. Both methods write the new user before the transaction and outside it, so a
  failed transaction leaves the user without a membership. Whether the invitation stays
  unaccepted depends on the method. Here the invited address accepts with a password and
  the database loses the connection at the commit. The method written against TypeORM
  fails and leaves the new user, no membership for it, and the invitation accepted: its
  flag is written by \<open>markAsAccepted\<close>, outside the transaction. The method written
  against the Prisma client fails on the same input and leaves the new user and the
  invitation unaccepted.
\<close>

theorem acceptInvitation_typeorm_flag_outlives_transaction:
  "acceptInvitation_typeorm demo_env commit_lost demo_db carol_accepts =
     (Inl (Store Unavailable),
      demo_db\<lparr>users := [alice, bob, carol],
               invitations := [carol_invited\<lparr>inv_accepted := True, inv_updatedAt := 5000\<rparr>]\<rparr>)
   \<and> tenantUsers demo_db = [alice_in_acme]
   \<and> acceptInvitation demo_env commit_lost demo_db carol_accepts =
       (Inl (Store Unavailable), demo_db\<lparr>users := [alice, bob, carol]\<rparr>)"
  by (simp add: acceptInvitation_typeorm_def acceptInvitation_typeorm_transaction_def
      acceptInvitation_typeorm_manager_def tenantUser_findOne_def tenantUser_save_def
      InvitationRepository_markAsAccepted_def
      acceptInvitation_def acceptInvitation_user_def acceptInvitation_tx_def
      carol_accepts_def carol_def commit_lost_def new_user_def svc_defs demo_defs)

theorem acceptInvitation_typeorm_flag_outlives_transaction_witness:
  "inv_accepted (hd (invitations (snd (acceptInvitation_typeorm demo_env commit_lost demo_db
                                         carol_accepts))))
   \<and> \<not> inv_accepted (hd (invitations (snd (acceptInvitation demo_env commit_lost demo_db
                                              carol_accepts))))"
  using acceptInvitation_typeorm_flag_outlives_transaction
  by (simp add: demo_db_def carol_invited_def)

subsection \<open>Operations and the invitation table\<close>

lemma generateTokens_signed:
  "generateTokens env c d u t = (Inr p, d') \<Longrightarrow> signed_refresh env c (refresh_token p)"
  unfolding signed_refresh_def by (blast dest: generateTokens_Inr(2))

lemma generateTokens_stored:
  "generateTokens env c d u t = (Inr p, d') \<Longrightarrow>
     d' = d\<lparr>refreshTokens := refreshTokens d @ [issued_row env c u (refresh_token p)]\<rparr>
     \<and> signed_refresh env c (refresh_token p)"
  by (simp add: generateTokens_signed generateTokens_Inr(3))

lemma generateTokens_effect:
  "generateTokens env c d u t = (r, d') \<Longrightarrow>
     invitations d' = invitations d \<and> tenantUsers d' = tenantUsers d \<and> users d' = users d
     \<and> issue_effect env c d (issued_by (r, d'))"
  by (cases r) (auto simp: issue_effect_def issued_by_def issued_row_def hashToken_def
      dest: generateTokens_Inl dest!: generateTokens_stored)

lemma login_effect:
  "login env c d dto = (r, d') \<Longrightarrow>
     invitations d' = invitations d \<and> issue_effect env c d (issued_by (r, d'))"
  by (auto simp: login_def split: sum.splits option.splits if_splits list.splits
      dest!: generateTokens_effect) (auto simp: issue_effect_def issued_by_def)

lemma login_getUserTenants_effect:
  "login_getUserTenants env c d dto = (r, d') \<Longrightarrow>
     invitations d' = invitations d \<and> issue_effect env c d (issued_by (r, d'))"
  by (auto simp: login_getUserTenants_def split: sum.splits option.splits if_splits list.splits
      dest!: generateTokens_effect) (auto simp: issue_effect_def issued_by_def)

lemma refreshToken_body_effect:
  "refreshToken_body env c d token = (r, d') \<Longrightarrow>
     invitations d' = invitations d \<and> issue_effect env c d (issued_by (r, d'))"
  by (auto simp: refreshToken_body_def split: sum.splits option.splits if_splits
      dest!: generateTokens_effect) (auto simp: issue_effect_def issued_by_def)

lemma refreshToken_effect:
  "refreshToken env c d token = (r, d') \<Longrightarrow>
     invitations d' = invitations d \<and> issue_effect env c d (issued_by (r, d'))"
  by (auto simp: refreshToken_def split: sum.splits prod.splits dest!: refreshToken_body_effect)
     (auto simp: issue_effect_def issued_by_def)

lemma register_effect:
  assumes "register env c d dto = (r, d')"
  shows "invitations d' = invitations d \<and> issue_effect env c d (issued_with_profile (r, d'))"
  using register_cases [OF assms]
  by (auto simp: issue_effect_def issued_with_profile_def issued_row_def hashToken_def
      dest!: register_tx_Inr generateTokens_stored)

lemma acceptInvitation_effect:
  assumes "acceptInvitation env c d dto = (r, d')"
  shows "issue_effect env c d (issued_with_profile (r, d'))"
  using acceptInvitation_cases [OF assms]
  by (auto simp: issue_effect_def issued_with_profile_def issued_row_def hashToken_def
      dest!: acceptInvitation_user_Inr acceptInvitation_tx_Inr generateTokens_stored)













subsection \<open>The refresh-token store holds digests\<close>

lemma issue_effect_tokens:
  assumes "issue_effect env c d (iss, d')"
  shows "token_values d' \<subseteq> token_values d \<union> sha256_hex env ` set_option iss
       \<and> (\<forall>raw. iss = Some raw \<longrightarrow>
             signed_refresh env c raw \<and> refreshTokens d' \<noteq> []
             \<and> butlast (refreshTokens d') = refreshTokens d
             \<and> rt_token (last (refreshTokens d')) = sha256_hex env raw)"
proof (cases iss)
  case None
  with assms show ?thesis
    by (simp add: issue_effect_def token_values_def)
next
  case (Some raw)
  with assms have ne: "refreshTokens d' \<noteq> []"
    and b: "butlast (refreshTokens d') = refreshTokens d"
    and l: "rt_token (last (refreshTokens d')) = sha256_hex env raw"
    and s: "signed_refresh env c raw"
    by (simp_all add: issue_effect_def)
  from ne b have "refreshTokens d' = refreshTokens d @ [last (refreshTokens d')]"
    using append_butlast_last_id [of "refreshTokens d'"] by simp
  then have "set (refreshTokens d') = insert (last (refreshTokens d')) (set (refreshTokens d))"
    by (metis Un_insert_right append_Nil2 list.simps(15) set_append)
  with l have "token_values d' = insert (sha256_hex env raw) (token_values d)"
    by (simp add: token_values_def)
  with Some ne b l s show ?thesis
    by auto
qed

lemma revoked_tokens:
  "rt_token ` set (map (\<lambda>r. if P r then r\<lparr>rt_revoked := True, rt_updatedAt := t\<rparr> else r) xs)
     = rt_token ` set xs"
  by (induction xs) auto

lemma revoke_Inr:
  "RefreshTokenRepository_revoke env c d token = Inr dr \<Longrightarrow>
     (\<exists>r \<in> set (refreshTokens d). rt_token r = sha256_hex env token)
     \<and> dr = d\<lparr>refreshTokens :=
                 map (\<lambda>r. if rt_token r = sha256_hex env token
                           then r\<lparr>rt_revoked := True, rt_updatedAt := now c\<rparr> else r)
                   (refreshTokens d)\<rparr>"
  by (auto simp: RefreshTokenRepository_revoke_def refreshToken_update_revoked_def
      hashToken_def reach_def Let_def split: if_splits)

lemma logout_tokens: "token_values (snd (logout env c d token)) = token_values d"
proof (cases "RefreshTokenRepository_revoke env c d token")
  case (Inl e)
  then show ?thesis by (simp add: logout_def)
next
  case (Inr dr)
  from revoke_Inr [OF Inr] have "token_values dr = token_values d"
    unfolding token_values_def by (simp add: revoked_tokens del: set_map)
  with Inr show ?thesis by (simp add: logout_def)
qed

lemma perform_tokens:
  assumes "perform env c d op = (iss, d')"
  shows "token_values d' \<subseteq> token_values d \<union> sha256_hex env ` set_option iss
       \<and> (\<forall>raw. iss = Some raw \<longrightarrow>
             signed_refresh env c raw \<and> refreshTokens d' \<noteq> []
             \<and> butlast (refreshTokens d') = refreshTokens d
             \<and> rt_token (last (refreshTokens d')) = sha256_hex env raw)"
proof (cases op)
  case (Register dto)
  obtain r d1 where a: "register env c d dto = (r, d1)" by (cases "register env c d dto")
  from register_effect [OF a] have "issue_effect env c d (issued_with_profile (r, d1))" by simp
  with a Register assms show ?thesis by (auto dest: issue_effect_tokens)
next
  case (Login dto)
  obtain r d1 where a: "login env c d dto = (r, d1)" by (cases "login env c d dto")
  from login_effect [OF a] have "issue_effect env c d (issued_by (r, d1))" by simp
  with a Login assms show ?thesis by (auto dest: issue_effect_tokens)
next
  case (LoginGetUserTenants dto)
  obtain r d1 where a: "login_getUserTenants env c d dto = (r, d1)"
    by (cases "login_getUserTenants env c d dto")
  from login_getUserTenants_effect [OF a] have "issue_effect env c d (issued_by (r, d1))" by simp
  with a LoginGetUserTenants assms show ?thesis by (auto dest: issue_effect_tokens)
next
  case (Refresh token)
  obtain r d1 where a: "refreshToken env c d token = (r, d1)"
    by (cases "refreshToken env c d token")
  from refreshToken_effect [OF a] have "issue_effect env c d (issued_by (r, d1))" by simp
  with a Refresh assms show ?thesis by (auto dest: issue_effect_tokens)
next
  case (AcceptInvitation dto)
  obtain r d1 where a: "acceptInvitation env c d dto = (r, d1)"
    by (cases "acceptInvitation env c d dto")
  from acceptInvitation_effect [OF a]
  have "issue_effect env c d (issued_with_profile (r, d1))" by simp
  with a AcceptInvitation assms show ?thesis by (auto dest: issue_effect_tokens)
next
  case (Logout token)
  with assms show ?thesis
    using logout_tokens [of env c d token] by auto
next
  case (InvitationCreate email token role expiresAt tid invitedBy)
  with assms show ?thesis
    by (auto simp: written_row_def InvitationRepository_create_def invitation_create_def
        reach_def Let_def token_values_def split: sum.splits if_splits)
next
  case (InvitationMarkAsAccepted iid)
  with assms show ?thesis
    by (auto simp: written_def InvitationRepository_markAsAccepted_def token_values_def
        split: sum.splits dest!: invitation_update_accepted_Inr)
next
  case (InvitationDelete iid)
  with assms show ?thesis
    by (auto simp: written_def InvitationRepository_delete_def invitation_delete_def reach_def
        Let_def token_values_def split: sum.splits if_splits)
next
  case (RevokeAllForUser uid)
  with assms show ?thesis
    by (auto simp: written_def RefreshTokenRepository_revokeAllForUser_def
        refreshToken_updateMany_revoked_def reach_def Let_def token_values_def
        split: sum.splits if_splits)
next
  case DeleteExpired
  with assms show ?thesis
    by (auto simp: written_row_def RefreshTokenRepository_deleteExpired_def
        refreshToken_deleteMany_expired_def reach_def Let_def token_values_def
        split: sum.splits if_splits)
next
  case (UserDelete uid)
  with assms show ?thesis
    by (auto simp: written_def UserRepository_delete_def user_delete_def reach_def
        Let_def token_values_def split: sum.splits if_splits)
next
  case (TenantDelete tid)
  with assms show ?thesis
    by (auto simp: written_def TenantRepository_delete_def tenant_delete_def reach_def
        Let_def token_values_def split: sum.splits if_splits)
next
  case (AddUserToTenant uid tid role)
  with assms show ?thesis
    by (auto simp: written_row_def TenantRepository_addUserToTenant_def token_values_def
        split: sum.splits dest!: tenantUser_create_Inr)
next
  case (UpdateUserRole uid tid role)
  with assms show ?thesis
    by (auto simp: written_def TenantRepository_updateUserRole_def tenantUser_update_def
        reach_def Let_def token_values_def split: sum.splits if_splits)
next
  case (RemoveUserFromTenant uid tid)
  with assms show ?thesis
    by (auto simp: written_def TenantRepository_removeUserFromTenant_def tenantUser_delete_def
        reach_def Let_def token_values_def split: sum.splits if_splits)
qed

lemma raw_is_no_digest:
  assumes "hex_digest env" "compact_jwt env" "signed_refresh env c raw"
  shows "raw \<notin> range (sha256_hex env)"
proof
  assume "raw \<in> range (sha256_hex env)"
  then obtain s where "raw = sha256_hex env s" by blast
  with assms(1) have "CHR ''.'' \<notin> set raw" by (simp add: hex_digest_def)
  moreover from assms(2,3) have "CHR ''.'' \<in> set raw"
    unfolding compact_jwt_def signed_refresh_def by blast
  ultimately show False by simp
qed

text \<open>
  C7. Whatever operation runs, the token values in the store afterwards are those that
  were there before and, when the operation handed out a refresh token, the SHA-256
  digest of that token, held by the one row appended for it. So a store of digests
  stays a store of digests, and the raw token is not among its values (a digest has no
  dot, a signed token has). \<open>findByToken\<close> returns only a row whose value is the digest
  of its argument, and \<open>revoke\<close> changes exactly the rows with that value.
\<close>

theorem refresh_store_holds_digests:
  assumes "perform env c d op = (iss, d')"
  shows "token_values d' \<subseteq> token_values d \<union> sha256_hex env ` set_option iss
       \<and> (\<forall>raw. iss = Some raw \<longrightarrow>
             refreshTokens d' \<noteq> [] \<and> butlast (refreshTokens d') = refreshTokens d
             \<and> rt_token (last (refreshTokens d')) = sha256_hex env raw)
       \<and> (digests_only env d \<longrightarrow> digests_only env d')
       \<and> (digests_only env d \<and> hex_digest env \<and> compact_jwt env \<longrightarrow>
             (\<forall>raw. iss = Some raw \<longrightarrow> raw \<notin> token_values d'))
       \<and> (\<forall>token row. RefreshTokenRepository_findByToken env c d token = Inr (Some row) \<longrightarrow>
             row \<in> set (refreshTokens d) \<and> rt_token row = sha256_hex env token)
       \<and> (\<forall>token dr. RefreshTokenRepository_revoke env c d token = Inr dr \<longrightarrow>
             sha256_hex env token \<in> token_values d
             \<and> refreshTokens dr =
                 map (\<lambda>r. if rt_token r = sha256_hex env token
                           then r\<lparr>rt_revoked := True, rt_updatedAt := now c\<rparr> else r)
                   (refreshTokens d))"
proof (intro conjI allI impI)
  note pt = perform_tokens [OF assms]
  from pt show sub: "token_values d' \<subseteq> token_values d \<union> sha256_hex env ` set_option iss"
    by simp
  {
    fix raw assume "iss = Some raw"
    with pt show "refreshTokens d' \<noteq> []" "butlast (refreshTokens d') = refreshTokens d"
      "rt_token (last (refreshTokens d')) = sha256_hex env raw"
      by auto
  }
  {
    assume "digests_only env d"
    with sub show "digests_only env d'"
      by (auto simp: digests_only_def)
  }
  {
    fix raw
    assume h: "digests_only env d \<and> hex_digest env \<and> compact_jwt env" and i: "iss = Some raw"
    with pt have "signed_refresh env c raw" by simp
    with h have "raw \<notin> range (sha256_hex env)"
      by (intro raw_is_no_digest) auto
    moreover from h sub have "token_values d' \<subseteq> range (sha256_hex env)"
      by (auto simp: digests_only_def)
    ultimately show "raw \<notin> token_values d'"
      by blast
  }
  {
    fix token row
    assume "RefreshTokenRepository_findByToken env c d token = Inr (Some row)"
    then show "row \<in> set (refreshTokens d)" "rt_token row = sha256_hex env token"
      by (auto simp: RefreshTokenRepository_findByToken_def refreshToken_findUnique_token_def
          hashToken_def reach_def Let_def split: if_splits dest!: find_SomeD)
  }
  {
    fix token dr
    assume "RefreshTokenRepository_revoke env c d token = Inr dr"
    from revoke_Inr [OF this]
    show "sha256_hex env token \<in> token_values d"
      "refreshTokens dr =
                 map (\<lambda>r. if rt_token r = sha256_hex env token
                           then r\<lparr>rt_revoked := True, rt_updatedAt := now c\<rparr> else r)
                   (refreshTokens d)"
      unfolding token_values_def by (force, simp)
  }
qed

theorem refresh_store_holds_digests_witness:
  "hex_digest demo_env \<and> compact_jwt demo_env \<and> digests_only demo_env demo_db
   \<and> fst (perform demo_env demo_call demo_db (Login alice_login)) = Some ''rs.u1.t1.5000''
   \<and> ''rs.u1.t1.5000'' \<notin> token_values (snd (perform demo_env demo_call demo_db (Login alice_login)))
   \<and> digests_only demo_env (snd (perform demo_env demo_call demo_db (Login alice_login)))"
proof -
  have hex: "hex_digest demo_env"
    by (auto simp: hex_digest_def demo_env_def demo_sha256_def)
  have jwt: "compact_jwt demo_env"
    by (auto simp: compact_jwt_def demo_env_def demo_sign_def split: option.splits)
  have "rt_token alice_stored = sha256_hex demo_env alice_token"
    by (simp add: demo_defs)
  then have dig: "digests_only demo_env demo_db"
    by (auto simp: digests_only_def token_values_def demo_db_def)
  obtain iss d' where p: "perform demo_env demo_call demo_db (Login alice_login) = (iss, d')"
    by (cases "perform demo_env demo_call demo_db (Login alice_login)")
  have "fst (perform demo_env demo_call demo_db (Login alice_login)) = Some ''rs.u1.t1.5000''"
    by (simp add: issued_by_def login_def alice_login_def svc_defs demo_defs)
  with p have iss: "iss = Some ''rs.u1.t1.5000''"
    by simp
  from refresh_store_holds_digests [OF p] hex jwt dig iss
  have "''rs.u1.t1.5000'' \<notin> token_values d'" and "digests_only demo_env d'"
    by blast+
  with p iss hex jwt dig show ?thesis
    by simp
qed

end
